theory Spec2Isabelle
  imports Main "HOL-Library.Word"
begin

unbundle bit_operations_syntax

section \<open>The Intel 8080 core of i8080.js\<close>

text \<open>
  A shallow embedding of \<^verbatim>\<open>src/i8080.js\<close> (the CPU) together with the flat memory and
  the I/O stub of the test driver. Conventions of the embedding:

  \<^item> A JavaScript number that an expression computes is an \<^typ>\<open>int\<close>; the bitwise
    operators \<^verbatim>\<open>&\<close>, \<^verbatim>\<open>|\<close>, \<^verbatim>\<open>^\<close>, \<^verbatim>\<open><<\<close>, \<^verbatim>\<open>>>\<close> are \<open>AND\<close>, \<open>OR\<close>, \<open>XOR\<close>,
    \<open>push_bit\<close>, \<open>drop_bit\<close> on \<^typ>\<open>int\<close> (two's complement, as in JavaScript; every
    value that occurs fits in 32 bits).
  \<^item> What the machine stores is a word of the stored width: registers and memory
    cells are \<^typ>\<open>8 word\<close>, \<open>pc\<close> and \<open>sp\<close> are \<^typ>\<open>16 word\<close>. Reading is \<open>uint\<close>,
    writing is \<open>word_of_int\<close> after the mask the source applies.
  \<^item> The register file \<^verbatim>\<open>regs\<close> is an array indexed by a number: a function from the
    index to the stored byte. Every index the handlers compute is an opcode bit field
    in \<open>0..7\<close>.
  \<^item> A flag holds \<^verbatim>\<open>0\<close>, \<^verbatim>\<open>1\<close>, \<^verbatim>\<open>false\<close> or \<^verbatim>\<open>true\<close> in the source, and is only ever
    used for its truth value (in a condition, under \<^verbatim>\<open>!\<close>, compared with \<^verbatim>\<open>==\<close> to a
    boolean, or coerced to \<open>0/1\<close> by an arithmetic operator): a flag is a \<^typ>\<open>bool\<close>,
    and \<open>of_bool\<close> is its numeric value.
  \<^item> The I/O back-end is a parameter of the CPU. Its calls are recorded in a log, the
    latest call last; \<^verbatim>\<open>input\<close> answers through a function of the port (the driver's
    stub answers 0 and does nothing else).
\<close>

type_synonym byte = "8 word"
type_synonym word16 = "16 word"

datatype io_event = Input int | Output int int | Interrupt bool

record i8080 =
  sp :: word16
  pc :: word16
  iff :: bool
  iff_pending :: int
  sf :: bool
  pf :: bool
  hf :: bool
  zf :: bool
  cf :: bool
  regs :: "int \<Rightarrow> byte"
  memory :: "word16 \<Rightarrow> byte"
  io_answer :: "int \<Rightarrow> int"
  io_log :: "io_event list"
  last_opcode :: int
  vcycles :: int
  cpu_cycles :: int

text \<open>
  The constructor \<^verbatim>\<open>I8080(memory, io)\<close>. The source leaves \<^verbatim>\<open>vcycles\<close> and
  \<^verbatim>\<open>cpu_cycles\<close> unset until the first instruction; they start at 0 here. The field
  \<^verbatim>\<open>tstates\<close> is never read or written after the constructor and is left out.
\<close>

definition I8080 :: "(word16 \<Rightarrow> byte) \<Rightarrow> (int \<Rightarrow> int) \<Rightarrow> i8080" where
  "I8080 mem inp =
     \<lparr>sp = 0, pc = 0, iff = False, iff_pending = 0,
      sf = False, pf = False, hf = False, zf = False, cf = False,
      regs = (\<lambda>_. 0), memory = mem, io_answer = inp, io_log = [],
      last_opcode = 0, vcycles = 0, cpu_cycles = 0\<rparr>"

subsection \<open>Flag byte\<close>

definition F_CARRY :: int where "F_CARRY = 0x01"
definition F_UN1 :: int where "F_UN1 = 0x02"
definition F_PARITY :: int where "F_PARITY = 0x04"
definition F_UN3 :: int where "F_UN3 = 0x08"
definition F_HCARRY :: int where "F_HCARRY = 0x10"
definition F_UN5 :: int where "F_UN5 = 0x20"
definition F_ZERO :: int where "F_ZERO = 0x40"
definition F_NEG :: int where "F_NEG = 0x80"

definition store_flags :: "i8080 \<Rightarrow> int" where
  "store_flags s =
     (let f = 0;
          f = (if sf s then f OR F_NEG else f AND NOT F_NEG);
          f = (if zf s then f OR F_ZERO else f AND NOT F_ZERO);
          f = (if hf s then f OR F_HCARRY else f AND NOT F_HCARRY);
          f = (if pf s then f OR F_PARITY else f AND NOT F_PARITY);
          f = (if cf s then f OR F_CARRY else f AND NOT F_CARRY);
          f = f OR F_UN1;
          f = f AND NOT F_UN3;
          f = f AND NOT F_UN5
      in f)"

definition retrieve_flags :: "int \<Rightarrow> i8080 \<Rightarrow> i8080" where
  "retrieve_flags f s =
     s\<lparr>sf := (f AND F_NEG \<noteq> 0),
       zf := (f AND F_ZERO \<noteq> 0),
       hf := (f AND F_HCARRY \<noteq> 0),
       pf := (f AND F_PARITY \<noteq> 0),
       cf := (f AND F_CARRY \<noteq> 0)\<rparr>"

subsection \<open>Memory access\<close>

text \<open>
  The memory of the driver is a flat array of 65536 cells, \<^verbatim>\<open>read\<close> and \<^verbatim>\<open>write\<close>
  address it modulo \<open>2^16\<close> and ignore the stack-request argument.
\<close>

definition memory_read_byte :: "int \<Rightarrow> bool \<Rightarrow> i8080 \<Rightarrow> int" where
  "memory_read_byte addr stackrq s =
     uint (memory s (word_of_int (addr AND 0xffff))) AND 0xff"

definition memory_write_byte :: "int \<Rightarrow> int \<Rightarrow> bool \<Rightarrow> i8080 \<Rightarrow> i8080" where
  "memory_write_byte addr w8 stackrq s =
     s\<lparr>memory := (memory s)(word_of_int (addr AND 0xffff) := word_of_int (w8 AND 0xff))\<rparr>"

definition memory_read_word :: "int \<Rightarrow> bool \<Rightarrow> i8080 \<Rightarrow> int" where
  "memory_read_word addr stackrq s =
     memory_read_byte addr stackrq s OR push_bit 8 (memory_read_byte (addr + 1) stackrq s)"

definition memory_write_word :: "int \<Rightarrow> int \<Rightarrow> bool \<Rightarrow> i8080 \<Rightarrow> i8080" where
  "memory_write_word addr w16 stackrq s =
     memory_write_byte (addr + 1) (drop_bit 8 w16) stackrq
       (memory_write_byte addr (w16 AND 0xff) stackrq s)"

subsection \<open>Registers and register pairs\<close>

text \<open>\<open>r\<close> is 0 (bc), 2 (de), 4 (hl) or 6 (sp).\<close>

definition rp :: "int \<Rightarrow> i8080 \<Rightarrow> int" where
  "rp r s =
     (if r \<noteq> 6 then push_bit 8 (uint (regs s r)) OR uint (regs s (r + 1))
      else uint (sp s))"

definition bc :: "i8080 \<Rightarrow> int" where "bc s = rp 0 s"
definition de :: "i8080 \<Rightarrow> int" where "de s = rp 2 s"
definition hl :: "i8080 \<Rightarrow> int" where "hl s = rp 4 s"

definition reg :: "int \<Rightarrow> i8080 \<Rightarrow> int" where
  "reg r s = (if r \<noteq> 6 then uint (regs s r) else memory_read_byte (hl s) False s)"

definition set_reg :: "int \<Rightarrow> int \<Rightarrow> i8080 \<Rightarrow> i8080" where
  "set_reg r w8 s =
     (let w8 = w8 AND 0xff
      in if r \<noteq> 6 then s\<lparr>regs := (regs s)(r := word_of_int w8)\<rparr>
         else memory_write_byte (hl s) w8 False s)"

text \<open>
  \<^verbatim>\<open>this.sp = w16\<close> stores the number as it is; every caller passes a value below
  \<open>2^16\<close> (a word read from memory, a masked sum, or \<open>hl\<close>).
\<close>

definition set_rp :: "int \<Rightarrow> int \<Rightarrow> i8080 \<Rightarrow> i8080" where
  "set_rp r w16 s =
     (if r \<noteq> 6 then set_reg (r + 1) (w16 AND 0xff) (set_reg r (drop_bit 8 w16) s)
      else s\<lparr>sp := word_of_int w16\<rparr>)"

definition b :: "i8080 \<Rightarrow> int" where "b s = reg 0 s"
definition c :: "i8080 \<Rightarrow> int" where "c s = reg 1 s"
definition d :: "i8080 \<Rightarrow> int" where "d s = reg 2 s"
definition e :: "i8080 \<Rightarrow> int" where "e s = reg 3 s"
definition h :: "i8080 \<Rightarrow> int" where "h s = reg 4 s"
definition l :: "i8080 \<Rightarrow> int" where "l s = reg 5 s"
definition a :: "i8080 \<Rightarrow> int" where "a s = reg 7 s"

definition set_b :: "int \<Rightarrow> i8080 \<Rightarrow> i8080" where "set_b v s = set_reg 0 v s"
definition set_c :: "int \<Rightarrow> i8080 \<Rightarrow> i8080" where "set_c v s = set_reg 1 v s"
definition set_d :: "int \<Rightarrow> i8080 \<Rightarrow> i8080" where "set_d v s = set_reg 2 v s"
definition set_e :: "int \<Rightarrow> i8080 \<Rightarrow> i8080" where "set_e v s = set_reg 3 v s"
definition set_h :: "int \<Rightarrow> i8080 \<Rightarrow> i8080" where "set_h v s = set_reg 4 v s"
definition set_l :: "int \<Rightarrow> i8080 \<Rightarrow> i8080" where "set_l v s = set_reg 5 v s"
definition set_a :: "int \<Rightarrow> i8080 \<Rightarrow> i8080" where "set_a v s = set_reg 7 v s"

definition next_pc_byte :: "i8080 \<Rightarrow> int \<times> i8080" where
  "next_pc_byte s =
     (let v = memory_read_byte (uint (pc s)) False s
      in (v, s\<lparr>pc := word_of_int ((uint (pc s) + 1) AND 0xffff)\<rparr>))"

definition next_pc_word :: "i8080 \<Rightarrow> int \<times> i8080" where
  "next_pc_word s =
     (let (lo, s1) = next_pc_byte s;
          (hi, s2) = next_pc_byte s1
      in (lo OR push_bit 8 hi, s2))"

subsection \<open>Tables\<close>

definition parity_table :: "int list" where
  "parity_table =
   [1, 0, 0, 1, 0, 1, 1, 0, 0, 1, 1, 0, 1, 0, 0, 1,
    0, 1, 1, 0, 1, 0, 0, 1, 1, 0, 0, 1, 0, 1, 1, 0,
    0, 1, 1, 0, 1, 0, 0, 1, 1, 0, 0, 1, 0, 1, 1, 0,
    1, 0, 0, 1, 0, 1, 1, 0, 0, 1, 1, 0, 1, 0, 0, 1,
    0, 1, 1, 0, 1, 0, 0, 1, 1, 0, 0, 1, 0, 1, 1, 0,
    1, 0, 0, 1, 0, 1, 1, 0, 0, 1, 1, 0, 1, 0, 0, 1,
    1, 0, 0, 1, 0, 1, 1, 0, 0, 1, 1, 0, 1, 0, 0, 1,
    0, 1, 1, 0, 1, 0, 0, 1, 1, 0, 0, 1, 0, 1, 1, 0,
    0, 1, 1, 0, 1, 0, 0, 1, 1, 0, 0, 1, 0, 1, 1, 0,
    1, 0, 0, 1, 0, 1, 1, 0, 0, 1, 1, 0, 1, 0, 0, 1,
    1, 0, 0, 1, 0, 1, 1, 0, 0, 1, 1, 0, 1, 0, 0, 1,
    0, 1, 1, 0, 1, 0, 0, 1, 1, 0, 0, 1, 0, 1, 1, 0,
    1, 0, 0, 1, 0, 1, 1, 0, 0, 1, 1, 0, 1, 0, 0, 1,
    0, 1, 1, 0, 1, 0, 0, 1, 1, 0, 0, 1, 0, 1, 1, 0,
    0, 1, 1, 0, 1, 0, 0, 1, 1, 0, 0, 1, 0, 1, 1, 0,
    1, 0, 0, 1, 0, 1, 1, 0, 0, 1, 1, 0, 1, 0, 0, 1]"

definition half_carry_table :: "int list" where
  "half_carry_table = [0, 0, 1, 0, 1, 0, 1, 1]"

definition sub_half_carry_table :: "int list" where
  "sub_half_carry_table = [0, 1, 1, 1, 0, 0, 0, 1]"

text \<open>
  The truth value of \<^verbatim>\<open>table[i]\<close>: a nonzero entry is true; an index outside the
  array gives \<^verbatim>\<open>undefined\<close>, which is false.
\<close>

definition table_flag :: "int list \<Rightarrow> int \<Rightarrow> bool" where
  "table_flag table i = (0 \<le> i \<and> i < int (length table) \<and> table ! nat i \<noteq> 0)"

subsection \<open>Arithmetic and logic\<close>

definition inr :: "int \<Rightarrow> i8080 \<Rightarrow> i8080" where
  "inr r s =
     (let v = reg r s;
          v = (v + 1) AND 0xff;
          s = set_reg r v s
      in s\<lparr>sf := (v AND 0x80 \<noteq> 0),
           zf := (v = 0),
           hf := (v AND 0x0f = 0),
           pf := table_flag parity_table v\<rparr>)"

definition dcr :: "int \<Rightarrow> i8080 \<Rightarrow> i8080" where
  "dcr r s =
     (let v = reg r s;
          v = (v - 1) AND 0xff;
          s = set_reg r v s
      in s\<lparr>sf := (v AND 0x80 \<noteq> 0),
           zf := (v = 0),
           hf := (\<not> (v AND 0x0f = 0x0f)),
           pf := table_flag parity_table v\<rparr>)"

definition add_im8 :: "int \<Rightarrow> int \<Rightarrow> i8080 \<Rightarrow> i8080" where
  "add_im8 v carry s =
     (let a0 = a s;
          w16 = a0 + v + carry;
          index = drop_bit 1 (a0 AND 0x88) OR drop_bit 2 (v AND 0x88) OR drop_bit 3 (w16 AND 0x88);
          a1 = w16 AND 0xff;
          s = s\<lparr>sf := (a1 AND 0x80 \<noteq> 0),
                zf := (a1 = 0),
                hf := table_flag half_carry_table (index AND 0x7),
                pf := table_flag parity_table a1,
                cf := (w16 AND 0x0100 \<noteq> 0)\<rparr>
      in set_a a1 s)"

definition add :: "int \<Rightarrow> int \<Rightarrow> i8080 \<Rightarrow> i8080" where
  "add r carry s = add_im8 (reg r s) carry s"

definition sub_im8 :: "int \<Rightarrow> int \<Rightarrow> i8080 \<Rightarrow> i8080" where
  "sub_im8 v carry s =
     (let a0 = a s;
          w16 = (a0 - v - carry) AND 0xffff;
          index = drop_bit 1 (a0 AND 0x88) OR drop_bit 2 (v AND 0x88) OR drop_bit 3 (w16 AND 0x88);
          a1 = w16 AND 0xff;
          s = s\<lparr>sf := (a1 AND 0x80 \<noteq> 0),
                zf := (a1 = 0),
                hf := (\<not> table_flag sub_half_carry_table (index AND 0x7)),
                pf := table_flag parity_table a1,
                cf := (w16 AND 0x0100 \<noteq> 0)\<rparr>
      in set_a a1 s)"

definition sub :: "int \<Rightarrow> int \<Rightarrow> i8080 \<Rightarrow> i8080" where
  "sub r carry s = sub_im8 (reg r s) carry s"

definition cmp_im8 :: "int \<Rightarrow> i8080 \<Rightarrow> i8080" where
  "cmp_im8 v s =
     (let a0 = a s;
          s = sub_im8 v 0 s
      in set_a a0 s)"

definition cmp :: "int \<Rightarrow> i8080 \<Rightarrow> i8080" where
  "cmp r s = cmp_im8 (reg r s) s"

definition ana_im8 :: "int \<Rightarrow> i8080 \<Rightarrow> i8080" where
  "ana_im8 v s =
     (let a0 = a s;
          s = s\<lparr>hf := ((a0 OR v) AND 0x08 \<noteq> 0)\<rparr>;
          a1 = a0 AND v;
          s = s\<lparr>sf := (a1 AND 0x80 \<noteq> 0),
                zf := (a1 = 0),
                pf := table_flag parity_table a1,
                cf := False\<rparr>
      in set_a a1 s)"

definition ana :: "int \<Rightarrow> i8080 \<Rightarrow> i8080" where
  "ana r s = ana_im8 (reg r s) s"

definition xra_im8 :: "int \<Rightarrow> i8080 \<Rightarrow> i8080" where
  "xra_im8 v s =
     (let a0 = a s;
          a1 = a0 XOR v;
          s = s\<lparr>sf := (a1 AND 0x80 \<noteq> 0),
                zf := (a1 = 0),
                hf := False,
                pf := table_flag parity_table a1,
                cf := False\<rparr>
      in set_a a1 s)"

definition xra :: "int \<Rightarrow> i8080 \<Rightarrow> i8080" where
  "xra r s = xra_im8 (reg r s) s"

definition ora_im8 :: "int \<Rightarrow> i8080 \<Rightarrow> i8080" where
  "ora_im8 v s =
     (let a0 = a s;
          a1 = a0 OR v;
          s = s\<lparr>sf := (a1 AND 0x80 \<noteq> 0),
                zf := (a1 = 0),
                hf := False,
                pf := table_flag parity_table a1,
                cf := False\<rparr>
      in set_a a1 s)"

definition ora :: "int \<Rightarrow> i8080 \<Rightarrow> i8080" where
  "ora r s = ora_im8 (reg r s) s"

text \<open>\<open>r\<close> is 0 (bc), 2 (de), 4 (hl) or 6 (sp).\<close>

definition dad :: "int \<Rightarrow> i8080 \<Rightarrow> i8080" where
  "dad r s =
     (let hl1 = hl s + rp r s;
          s = s\<lparr>cf := (hl1 AND 0x10000 \<noteq> 0)\<rparr>;
          s = set_h (drop_bit 8 hl1) s
      in set_l (hl1 AND 0xff) s)"

subsection \<open>Stack and control transfer\<close>

definition pop :: "i8080 \<Rightarrow> int \<times> i8080" where
  "pop s =
     (let v = memory_read_word (uint (sp s)) True s
      in (v, s\<lparr>sp := word_of_int ((uint (sp s) + 2) AND 0xffff)\<rparr>))"

definition push :: "int \<Rightarrow> i8080 \<Rightarrow> i8080" where
  "push v s =
     (let s = s\<lparr>sp := word_of_int ((uint (sp s) - 2) AND 0xffff)\<rparr>
      in memory_write_word (uint (sp s)) v True s)"

text \<open>
  \<^verbatim>\<open>this.pc = w16\<close> stores the number as it is; every caller passes a value below
  \<open>2^16\<close> (a word read from memory, \<open>hl\<close>, or \<open>opcode & 0x38\<close>).
\<close>

definition call :: "int \<Rightarrow> i8080 \<Rightarrow> i8080" where
  "call w16 s =
     (let s = push (uint (pc s)) s
      in s\<lparr>pc := word_of_int w16\<rparr>)"

definition ret :: "i8080 \<Rightarrow> i8080" where
  "ret s =
     (let (v, s) = pop s
      in s\<lparr>pc := word_of_int v\<rparr>)"

definition rst :: "int \<Rightarrow> i8080 \<Rightarrow> i8080" where
  "rst addr s =
     (let s = push (uint (pc s)) s
      in s\<lparr>pc := word_of_int addr\<rparr>)"

subsection \<open>Cycle patterns\<close>

definition T4 :: int where "T4 = 4"
definition T43 :: int where "T43 = 8"
definition T5 :: int where "T5 = 8"
definition T433 :: int where "T433 = 12"
definition T43333 :: int where "T43333 = 20"
definition T4333 :: int where "T4333 = 16"
definition T533 :: int where "T533 = 16"
definition T53333 :: int where "T53333 = 24"
definition T43335 :: int where "T43335 = 24"

subsection \<open>I/O back-end\<close>

definition io_input :: "int \<Rightarrow> i8080 \<Rightarrow> int \<times> i8080" where
  "io_input port s = (io_answer s port, s\<lparr>io_log := io_log s @ [Input port]\<rparr>)"

definition io_output :: "int \<Rightarrow> int \<Rightarrow> i8080 \<Rightarrow> i8080" where
  "io_output port w8 s = s\<lparr>io_log := io_log s @ [Output port w8]\<rparr>"

definition io_interrupt :: "bool \<Rightarrow> i8080 \<Rightarrow> i8080" where
  "io_interrupt enabled s = s\<lparr>io_log := io_log s @ [Interrupt enabled]\<rparr>"

subsection \<open>Handlers\<close>

text \<open>
  \<^verbatim>\<open>initHandlers\<close> fills a 256-entry table with closures, one closure for each group of
  opcodes. Each closure is a function of the opcode and the state here, named after
  its instruction.
\<close>

definition h_nop :: "int \<Rightarrow> i8080 \<Rightarrow> i8080" where
  "h_nop opcode s = s\<lparr>vcycles := T4, cpu_cycles := 4\<rparr>"

definition h_lxi :: "int \<Rightarrow> i8080 \<Rightarrow> i8080" where
  "h_lxi opcode s =
     (let s = s\<lparr>vcycles := T433, cpu_cycles := 10\<rparr>;
          (w16, s) = next_pc_word s
      in set_rp (drop_bit 3 opcode) w16 s)"

definition h_stax :: "int \<Rightarrow> i8080 \<Rightarrow> i8080" where
  "h_stax opcode s =
     (let s = s\<lparr>vcycles := T43, cpu_cycles := 7\<rparr>
      in memory_write_byte (rp (drop_bit 3 opcode) s) (a s) False s)"

definition h_inx :: "int \<Rightarrow> i8080 \<Rightarrow> i8080" where
  "h_inx opcode s =
     (let s = s\<lparr>vcycles := T5, cpu_cycles := 5\<rparr>;
          r = drop_bit 3 opcode
      in set_rp r ((rp r s + 1) AND 0xffff) s)"

definition h_inr :: "int \<Rightarrow> i8080 \<Rightarrow> i8080" where
  "h_inr opcode s =
     (let s = s\<lparr>vcycles := T5, cpu_cycles := 5\<rparr>
      in inr (drop_bit 3 opcode) s)"

definition h_inr_m :: "int \<Rightarrow> i8080 \<Rightarrow> i8080" where
  "h_inr_m opcode s =
     (let s = s\<lparr>vcycles := T433, cpu_cycles := 10\<rparr>
      in inr (drop_bit 3 opcode) s)"

definition h_dcr :: "int \<Rightarrow> i8080 \<Rightarrow> i8080" where
  "h_dcr opcode s =
     (let s = s\<lparr>vcycles := T5, cpu_cycles := 5\<rparr>
      in dcr (drop_bit 3 opcode) s)"

definition h_dcr_m :: "int \<Rightarrow> i8080 \<Rightarrow> i8080" where
  "h_dcr_m opcode s =
     (let s = s\<lparr>vcycles := T433, cpu_cycles := 10\<rparr>
      in dcr (drop_bit 3 opcode) s)"

definition h_mvi :: "int \<Rightarrow> i8080 \<Rightarrow> i8080" where
  "h_mvi opcode s =
     (let s = s\<lparr>vcycles := T43, cpu_cycles := 7\<rparr>;
          (v, s) = next_pc_byte s
      in set_reg (drop_bit 3 opcode) v s)"

definition h_mvi_m :: "int \<Rightarrow> i8080 \<Rightarrow> i8080" where
  "h_mvi_m opcode s =
     (let s = s\<lparr>vcycles := T433, cpu_cycles := 10\<rparr>;
          (v, s) = next_pc_byte s
      in set_reg (drop_bit 3 opcode) v s)"

definition h_rlc :: "int \<Rightarrow> i8080 \<Rightarrow> i8080" where
  "h_rlc opcode s =
     (let s = s\<lparr>vcycles := T4, cpu_cycles := 4\<rparr>;
          a0 = a s;
          s = s\<lparr>cf := (a0 AND 0x80 \<noteq> 0)\<rparr>
      in set_a ((push_bit 1 a0 AND 0xff) OR of_bool (cf s)) s)"

definition h_dad :: "int \<Rightarrow> i8080 \<Rightarrow> i8080" where
  "h_dad opcode s =
     (let s = s\<lparr>vcycles := T433, cpu_cycles := 10\<rparr>
      in dad (drop_bit 3 (opcode AND 0x30)) s)"

definition h_ldax :: "int \<Rightarrow> i8080 \<Rightarrow> i8080" where
  "h_ldax opcode s =
     (let s = s\<lparr>vcycles := T43, cpu_cycles := 7\<rparr>;
          r = drop_bit 3 (opcode AND 0x10)
      in set_a (memory_read_byte (rp r s) False s) s)"

definition h_dcx :: "int \<Rightarrow> i8080 \<Rightarrow> i8080" where
  "h_dcx opcode s =
     (let s = s\<lparr>vcycles := T5, cpu_cycles := 5\<rparr>;
          r = drop_bit 3 (opcode AND 0x30)
      in set_rp r ((rp r s - 1) AND 0xffff) s)"

definition h_rrc :: "int \<Rightarrow> i8080 \<Rightarrow> i8080" where
  "h_rrc opcode s =
     (let s = s\<lparr>vcycles := T4, cpu_cycles := 4\<rparr>;
          s = s\<lparr>cf := (a s AND 0x01 \<noteq> 0)\<rparr>
      in set_a (drop_bit 1 (a s) OR push_bit 7 (of_bool (cf s))) s)"

definition h_ral :: "int \<Rightarrow> i8080 \<Rightarrow> i8080" where
  "h_ral opcode s =
     (let s = s\<lparr>vcycles := T4, cpu_cycles := 4\<rparr>;
          w8 = of_bool (cf s);
          s = s\<lparr>cf := (a s AND 0x80 \<noteq> 0)\<rparr>
      in set_a (push_bit 1 (a s) OR w8) s)"

definition h_rar :: "int \<Rightarrow> i8080 \<Rightarrow> i8080" where
  "h_rar opcode s =
     (let s = s\<lparr>vcycles := T4, cpu_cycles := 4\<rparr>;
          w8 = of_bool (cf s);
          s = s\<lparr>cf := (a s AND 0x01 \<noteq> 0)\<rparr>
      in set_a (drop_bit 1 (a s) OR push_bit 7 w8) s)"

definition h_shld :: "int \<Rightarrow> i8080 \<Rightarrow> i8080" where
  "h_shld opcode s =
     (let s = s\<lparr>vcycles := T43333, cpu_cycles := 16\<rparr>;
          (w16, s) = next_pc_word s;
          s = memory_write_byte w16 (l s) False s
      in memory_write_byte (w16 + 1) (h s) False s)"

definition h_daa :: "int \<Rightarrow> i8080 \<Rightarrow> i8080" where
  "h_daa opcode s =
     (let s = s\<lparr>vcycles := T4, cpu_cycles := 4\<rparr>;
          carry = cf s;
          add0 = 0;
          a0 = a s;
          add1 = (if hf s \<or> (a0 AND 0x0f) > 9 then 0x06 else add0);
          (add2, carry) =
            (if cf s \<or> drop_bit 4 a0 > 9 \<or> (drop_bit 4 a0 \<ge> 9 \<and> (a0 AND 0xf) > 9)
             then (add1 OR 0x60, True) else (add1, carry));
          s = add_im8 add2 0 s;
          s = s\<lparr>pf := table_flag parity_table (a s)\<rparr>
      in s\<lparr>cf := carry\<rparr>)"

definition h_lhld :: "int \<Rightarrow> i8080 \<Rightarrow> i8080" where
  "h_lhld opcode s =
     (let s = s\<lparr>vcycles := T43333, cpu_cycles := 16\<rparr>;
          (w16, s) = next_pc_word s;
          s = s\<lparr>regs := (regs s)(5 := word_of_int (memory_read_byte w16 False s))\<rparr>
      in s\<lparr>regs := (regs s)(4 := word_of_int (memory_read_byte (w16 + 1) False s))\<rparr>)"

definition h_cma :: "int \<Rightarrow> i8080 \<Rightarrow> i8080" where
  "h_cma opcode s =
     (let s = s\<lparr>vcycles := T4, cpu_cycles := 4\<rparr>
      in set_a (a s XOR 0xff) s)"

definition h_sta :: "int \<Rightarrow> i8080 \<Rightarrow> i8080" where
  "h_sta opcode s =
     (let s = s\<lparr>vcycles := T4333, cpu_cycles := 13\<rparr>;
          (w16, s) = next_pc_word s
      in memory_write_byte w16 (a s) False s)"

definition h_stc :: "int \<Rightarrow> i8080 \<Rightarrow> i8080" where
  "h_stc opcode s =
     (let s = s\<lparr>vcycles := T4, cpu_cycles := 4\<rparr>
      in s\<lparr>cf := True\<rparr>)"

definition h_lda :: "int \<Rightarrow> i8080 \<Rightarrow> i8080" where
  "h_lda opcode s =
     (let s = s\<lparr>vcycles := T4333, cpu_cycles := 13\<rparr>;
          (w16, s) = next_pc_word s
      in set_a (memory_read_byte w16 False s) s)"

definition h_cmc :: "int \<Rightarrow> i8080 \<Rightarrow> i8080" where
  "h_cmc opcode s =
     (let s = s\<lparr>vcycles := T4, cpu_cycles := 4\<rparr>
      in s\<lparr>cf := (\<not> cf s)\<rparr>)"

text \<open>
  The source's comment above this handler: "it should be that: tstates = [4, 3];
  that.vcycles = T43; that.cpu_cycles = 7".
\<close>

definition h_hlt :: "int \<Rightarrow> i8080 \<Rightarrow> i8080" where
  "h_hlt opcode s =
     (let s = s\<lparr>vcycles := T4, cpu_cycles := 4\<rparr>
      in s\<lparr>pc := word_of_int ((uint (pc s) - 1) AND 0xffff)\<rparr>)"

definition h_add :: "int \<Rightarrow> i8080 \<Rightarrow> i8080" where
  "h_add opcode s =
     (let r = opcode AND 0x07;
          s = s\<lparr>vcycles := T4, cpu_cycles := 4\<rparr>
      in add r (if opcode AND 0x08 \<noteq> 0 then of_bool (cf s) else 0) s)"

definition h_add_m :: "int \<Rightarrow> i8080 \<Rightarrow> i8080" where
  "h_add_m opcode s =
     (let r = opcode AND 0x07;
          s = s\<lparr>vcycles := T43, cpu_cycles := 7\<rparr>
      in add r (if opcode AND 0x08 \<noteq> 0 then of_bool (cf s) else 0) s)"

definition h_sub :: "int \<Rightarrow> i8080 \<Rightarrow> i8080" where
  "h_sub opcode s =
     (let r = opcode AND 0x07;
          s = s\<lparr>vcycles := T4, cpu_cycles := 4\<rparr>
      in sub r (if opcode AND 0x08 \<noteq> 0 then of_bool (cf s) else 0) s)"

definition h_sub_m :: "int \<Rightarrow> i8080 \<Rightarrow> i8080" where
  "h_sub_m opcode s =
     (let r = opcode AND 0x07;
          s = s\<lparr>vcycles := T43, cpu_cycles := 7\<rparr>
      in sub r (if opcode AND 0x08 \<noteq> 0 then of_bool (cf s) else 0) s)"

definition h_ana :: "int \<Rightarrow> i8080 \<Rightarrow> i8080" where
  "h_ana opcode s =
     (let r = opcode AND 0x07;
          s = s\<lparr>vcycles := T4, cpu_cycles := 4\<rparr>
      in ana r s)"

definition h_ana_m :: "int \<Rightarrow> i8080 \<Rightarrow> i8080" where
  "h_ana_m opcode s =
     (let r = opcode AND 0x07;
          s = s\<lparr>vcycles := T43, cpu_cycles := 7\<rparr>
      in ana r s)"

definition h_xra :: "int \<Rightarrow> i8080 \<Rightarrow> i8080" where
  "h_xra opcode s =
     (let r = opcode AND 0x07;
          s = s\<lparr>vcycles := T4, cpu_cycles := 4\<rparr>
      in xra r s)"

definition h_xra_m :: "int \<Rightarrow> i8080 \<Rightarrow> i8080" where
  "h_xra_m opcode s =
     (let r = opcode AND 0x07;
          s = s\<lparr>vcycles := T43, cpu_cycles := 7\<rparr>
      in xra r s)"

definition h_ora :: "int \<Rightarrow> i8080 \<Rightarrow> i8080" where
  "h_ora opcode s =
     (let r = opcode AND 0x07;
          s = s\<lparr>vcycles := T4, cpu_cycles := 4\<rparr>
      in ora r s)"

definition h_ora_m :: "int \<Rightarrow> i8080 \<Rightarrow> i8080" where
  "h_ora_m opcode s =
     (let r = opcode AND 0x07;
          s = s\<lparr>vcycles := T43, cpu_cycles := 7\<rparr>
      in ora r s)"

definition h_cmp :: "int \<Rightarrow> i8080 \<Rightarrow> i8080" where
  "h_cmp opcode s =
     (let r = opcode AND 0x07;
          s = s\<lparr>vcycles := T4, cpu_cycles := 4\<rparr>
      in cmp r s)"

definition h_cmp_m :: "int \<Rightarrow> i8080 \<Rightarrow> i8080" where
  "h_cmp_m opcode s =
     (let r = opcode AND 0x07;
          s = s\<lparr>vcycles := T43, cpu_cycles := 7\<rparr>
      in cmp r s)"

text \<open>
  Conditional return, jump and call: bits 4-5 of the opcode select the flag, bit 3 is
  the value it is compared with.
\<close>

definition h_rcc :: "int \<Rightarrow> i8080 \<Rightarrow> i8080" where
  "h_rcc opcode s =
     (let flags = [zf s, cf s, pf s, sf s];
          r = drop_bit 4 opcode AND 0x03;
          direction = (opcode AND 0x08 \<noteq> 0);
          s = s\<lparr>vcycles := T5, cpu_cycles := 5\<rparr>
      in if flags ! nat r = direction
         then ret (s\<lparr>cpu_cycles := 11, vcycles := T533\<rparr>)
         else s)"

definition h_pop :: "int \<Rightarrow> i8080 \<Rightarrow> i8080" where
  "h_pop opcode s =
     (let r = drop_bit 3 (opcode AND 0x30);
          s = s\<lparr>vcycles := T433, cpu_cycles := 10\<rparr>;
          (w16, s) = pop s
      in if r \<noteq> 6 then set_rp r w16 s
         else retrieve_flags (w16 AND 0xff) (set_a (drop_bit 8 w16) s))"

definition h_jcc :: "int \<Rightarrow> i8080 \<Rightarrow> i8080" where
  "h_jcc opcode s =
     (let flags = [zf s, cf s, pf s, sf s];
          r = drop_bit 4 opcode AND 0x03;
          direction = (opcode AND 0x08 \<noteq> 0);
          s = s\<lparr>vcycles := T433, cpu_cycles := 10\<rparr>;
          (w16, s) = next_pc_word s
      in s\<lparr>pc := (if flags ! nat r = direction then word_of_int w16 else pc s)\<rparr>)"

definition h_jmp :: "int \<Rightarrow> i8080 \<Rightarrow> i8080" where
  "h_jmp opcode s =
     (let s = s\<lparr>vcycles := T433, cpu_cycles := 10\<rparr>;
          (w16, s) = next_pc_word s
      in s\<lparr>pc := word_of_int w16\<rparr>)"

definition h_ccc :: "int \<Rightarrow> i8080 \<Rightarrow> i8080" where
  "h_ccc opcode s =
     (let flags = [zf s, cf s, pf s, sf s];
          r = drop_bit 4 opcode AND 0x03;
          direction = (opcode AND 0x08 \<noteq> 0);
          (w16, s) = next_pc_word s;
          s = s\<lparr>vcycles := T533, cpu_cycles := 11\<rparr>
      in if flags ! nat r = direction
         then call w16 (s\<lparr>vcycles := T53333, cpu_cycles := 17\<rparr>)
         else s)"

definition h_push :: "int \<Rightarrow> i8080 \<Rightarrow> i8080" where
  "h_push opcode s =
     (let r = drop_bit 3 (opcode AND 0x30);
          s = s\<lparr>vcycles := T533, cpu_cycles := 11\<rparr>;
          w16 = (if r \<noteq> 6 then rp r s else push_bit 8 (a s) OR store_flags s)
      in push w16 s)"

definition h_adi :: "int \<Rightarrow> i8080 \<Rightarrow> i8080" where
  "h_adi opcode s =
     (let s = s\<lparr>vcycles := T43, cpu_cycles := 7\<rparr>;
          (v, s) = next_pc_byte s
      in add_im8 v 0 s)"

definition h_rst :: "int \<Rightarrow> i8080 \<Rightarrow> i8080" where
  "h_rst opcode s =
     (let s = s\<lparr>vcycles := T533, cpu_cycles := 11\<rparr>
      in rst (opcode AND 0x38) s)"

definition h_ret :: "int \<Rightarrow> i8080 \<Rightarrow> i8080" where
  "h_ret opcode s =
     (let s = s\<lparr>vcycles := T433, cpu_cycles := 10\<rparr>
      in ret s)"

definition h_call :: "int \<Rightarrow> i8080 \<Rightarrow> i8080" where
  "h_call opcode s =
     (let s = s\<lparr>vcycles := T53333, cpu_cycles := 17\<rparr>;
          (w16, s) = next_pc_word s
      in call w16 s)"

definition h_aci :: "int \<Rightarrow> i8080 \<Rightarrow> i8080" where
  "h_aci opcode s =
     (let s = s\<lparr>vcycles := T43, cpu_cycles := 7\<rparr>;
          (v, s) = next_pc_byte s
      in add_im8 v (of_bool (cf s)) s)"

definition h_out :: "int \<Rightarrow> i8080 \<Rightarrow> i8080" where
  "h_out opcode s =
     (let s = s\<lparr>vcycles := T433, cpu_cycles := 10\<rparr>;
          (port, s) = next_pc_byte s
      in io_output port (a s) s)"

definition h_sui :: "int \<Rightarrow> i8080 \<Rightarrow> i8080" where
  "h_sui opcode s =
     (let s = s\<lparr>vcycles := T43, cpu_cycles := 7\<rparr>;
          (v, s) = next_pc_byte s
      in sub_im8 v 0 s)"

definition h_in :: "int \<Rightarrow> i8080 \<Rightarrow> i8080" where
  "h_in opcode s =
     (let s = s\<lparr>vcycles := T433, cpu_cycles := 10\<rparr>;
          (port, s) = next_pc_byte s;
          (v, s) = io_input port s
      in set_a v s)"

definition h_sbi :: "int \<Rightarrow> i8080 \<Rightarrow> i8080" where
  "h_sbi opcode s =
     (let s = s\<lparr>vcycles := T43, cpu_cycles := 7\<rparr>;
          (v, s) = next_pc_byte s
      in sub_im8 v (of_bool (cf s)) s)"

definition h_xthl :: "int \<Rightarrow> i8080 \<Rightarrow> i8080" where
  "h_xthl opcode s =
     (let s = s\<lparr>vcycles := T43335, cpu_cycles := 18\<rparr>;
          w16 = memory_read_word (uint (sp s)) True s;
          s = memory_write_word (uint (sp s)) (hl s) True s;
          s = set_l (w16 AND 0xff) s
      in set_h (drop_bit 8 w16) s)"

definition h_ani :: "int \<Rightarrow> i8080 \<Rightarrow> i8080" where
  "h_ani opcode s =
     (let s = s\<lparr>vcycles := T43, cpu_cycles := 7\<rparr>;
          (v, s) = next_pc_byte s
      in ana_im8 v s)"

definition h_pchl :: "int \<Rightarrow> i8080 \<Rightarrow> i8080" where
  "h_pchl opcode s =
     (let s = s\<lparr>vcycles := T5, cpu_cycles := 5\<rparr>
      in s\<lparr>pc := word_of_int (hl s)\<rparr>)"

definition h_xchg :: "int \<Rightarrow> i8080 \<Rightarrow> i8080" where
  "h_xchg opcode s =
     (let s = s\<lparr>vcycles := T4, cpu_cycles := 4\<rparr>;
          w8 = l s;
          s = set_l (e s) s;
          s = set_e w8 s;
          w8 = h s;
          s = set_h (d s) s
      in set_d w8 s)"

definition h_xri :: "int \<Rightarrow> i8080 \<Rightarrow> i8080" where
  "h_xri opcode s =
     (let s = s\<lparr>vcycles := T43, cpu_cycles := 7\<rparr>;
          (v, s) = next_pc_byte s
      in xra_im8 v s)"

text \<open>\<open>opcode & 0x08\<close> is 0 for DI (0xF3) and nonzero for EI (0xFB).\<close>

definition h_di_ei :: "int \<Rightarrow> i8080 \<Rightarrow> i8080" where
  "h_di_ei opcode s =
     (let s = s\<lparr>vcycles := T4, cpu_cycles := 4\<rparr>
      in if opcode AND 0x08 \<noteq> 0 then s\<lparr>iff_pending := 2\<rparr>
         else io_interrupt False (s\<lparr>iff := False\<rparr>))"

definition h_ori :: "int \<Rightarrow> i8080 \<Rightarrow> i8080" where
  "h_ori opcode s =
     (let s = s\<lparr>vcycles := T43, cpu_cycles := 7\<rparr>;
          (v, s) = next_pc_byte s
      in ora_im8 v s)"

definition h_sphl :: "int \<Rightarrow> i8080 \<Rightarrow> i8080" where
  "h_sphl opcode s =
     (let s = s\<lparr>vcycles := T5, cpu_cycles := 5\<rparr>
      in s\<lparr>sp := word_of_int (hl s)\<rparr>)"

definition h_cpi :: "int \<Rightarrow> i8080 \<Rightarrow> i8080" where
  "h_cpi opcode s =
     (let s = s\<lparr>vcycles := T43, cpu_cycles := 7\<rparr>;
          (v, s) = next_pc_byte s
      in cmp_im8 v s)"

definition h_mov :: "int \<Rightarrow> i8080 \<Rightarrow> i8080" where
  "h_mov opcode s =
     (let src = opcode AND 7;
          dst = drop_bit 3 opcode AND 7;
          s = (if src = 6 \<or> dst = 6 then s\<lparr>vcycles := T43, cpu_cycles := 7\<rparr>
               else s\<lparr>vcycles := T5, cpu_cycles := (if src = 6 \<or> dst = 6 then 7 else 5)\<rparr>)
      in set_reg dst (reg src s) s)"

subsection \<open>Dispatch table\<close>

text \<open>
  \<^verbatim>\<open>handler[opcode]\<close>, in the order in which \<^verbatim>\<open>initHandlers\<close> assigns the entries. The
  source assigns every index once, so the order of the tests does not matter. An
  index that was never assigned is \<^verbatim>\<open>undefined\<close>: \<open>None\<close>.
\<close>

definition handler :: "int \<Rightarrow> (int \<Rightarrow> i8080 \<Rightarrow> i8080) option" where
  "handler opcode =
     (if opcode \<in> {0x00, 0x08, 0x10, 0x18, 0x20, 0x28, 0x30, 0x38}
      then Some h_nop
      else if opcode \<in> {0x01, 0x11, 0x21, 0x31}
      then Some h_lxi
      else if opcode \<in> {0x02, 0x12}
      then Some h_stax
      else if opcode \<in> {0x03, 0x13, 0x23, 0x33}
      then Some h_inx
      else if opcode \<in> {0x04, 0x0C, 0x14, 0x1C, 0x24, 0x2C, 0x3C}
      then Some h_inr
      else if opcode \<in> {0x34}
      then Some h_inr_m
      else if opcode \<in> {0x05, 0x0D, 0x15, 0x1D, 0x25, 0x2D, 0x3D}
      then Some h_dcr
      else if opcode \<in> {0x35}
      then Some h_dcr_m
      else if opcode \<in> {0x06, 0x0E, 0x16, 0x1E, 0x26, 0x2E, 0x3E}
      then Some h_mvi
      else if opcode \<in> {0x36}
      then Some h_mvi_m
      else if opcode \<in> {0x07}
      then Some h_rlc
      else if opcode \<in> {0x09, 0x19, 0x29, 0x39}
      then Some h_dad
      else if opcode \<in> {0x0A, 0x1A}
      then Some h_ldax
      else if opcode \<in> {0x0B, 0x1B, 0x2B, 0x3B}
      then Some h_dcx
      else if opcode \<in> {0x0F}
      then Some h_rrc
      else if opcode \<in> {0x17}
      then Some h_ral
      else if opcode \<in> {0x1F}
      then Some h_rar
      else if opcode \<in> {0x22}
      then Some h_shld
      else if opcode \<in> {0x27}
      then Some h_daa
      else if opcode \<in> {0x2A}
      then Some h_lhld
      else if opcode \<in> {0x2F}
      then Some h_cma
      else if opcode \<in> {0x32}
      then Some h_sta
      else if opcode \<in> {0x37}
      then Some h_stc
      else if opcode \<in> {0x3A}
      then Some h_lda
      else if opcode \<in> {0x3F}
      then Some h_cmc
      else if opcode \<in> {0x76}
      then Some h_hlt
      else if opcode \<in> {0x80, 0x81, 0x82, 0x83, 0x84, 0x85, 0x87, 0x88,
                      0x89, 0x8A, 0x8B, 0x8C, 0x8D, 0x8F}
      then Some h_add
      else if opcode \<in> {0x86, 0x8E}
      then Some h_add_m
      else if opcode \<in> {0x90, 0x91, 0x92, 0x93, 0x94, 0x95, 0x97, 0x98,
                      0x99, 0x9A, 0x9B, 0x9C, 0x9D, 0x9F}
      then Some h_sub
      else if opcode \<in> {0x96, 0x9E}
      then Some h_sub_m
      else if opcode \<in> {0xA0, 0xA1, 0xA2, 0xA3, 0xA4, 0xA5, 0xA7}
      then Some h_ana
      else if opcode \<in> {0xA6}
      then Some h_ana_m
      else if opcode \<in> {0xA8, 0xA9, 0xAA, 0xAB, 0xAC, 0xAD, 0xAF}
      then Some h_xra
      else if opcode \<in> {0xAE}
      then Some h_xra_m
      else if opcode \<in> {0xB0, 0xB1, 0xB2, 0xB3, 0xB4, 0xB5, 0xB7}
      then Some h_ora
      else if opcode \<in> {0xB6}
      then Some h_ora_m
      else if opcode \<in> {0xB8, 0xB9, 0xBA, 0xBB, 0xBC, 0xBD, 0xBF}
      then Some h_cmp
      else if opcode \<in> {0xBE}
      then Some h_cmp_m
      else if opcode \<in> {0xC0, 0xC8, 0xD0, 0xD8, 0xE0, 0xE8, 0xF0, 0xF8}
      then Some h_rcc
      else if opcode \<in> {0xC1, 0xD1, 0xE1, 0xF1}
      then Some h_pop
      else if opcode \<in> {0xC2, 0xCA, 0xD2, 0xDA, 0xE2, 0xEA, 0xF2, 0xFA}
      then Some h_jcc
      else if opcode \<in> {0xC3, 0xCB}
      then Some h_jmp
      else if opcode \<in> {0xC4, 0xCC, 0xD4, 0xDC, 0xE4, 0xEC, 0xF4, 0xFC}
      then Some h_ccc
      else if opcode \<in> {0xC5, 0xD5, 0xE5, 0xF5}
      then Some h_push
      else if opcode \<in> {0xC6}
      then Some h_adi
      else if opcode \<in> {0xC7, 0xCF, 0xD7, 0xDF, 0xE7, 0xEF, 0xF7, 0xFF}
      then Some h_rst
      else if opcode \<in> {0xC9, 0xD9}
      then Some h_ret
      else if opcode \<in> {0xCD, 0xDD, 0xED, 0xFD}
      then Some h_call
      else if opcode \<in> {0xCE}
      then Some h_aci
      else if opcode \<in> {0xD3}
      then Some h_out
      else if opcode \<in> {0xD6}
      then Some h_sui
      else if opcode \<in> {0xDB}
      then Some h_in
      else if opcode \<in> {0xDE}
      then Some h_sbi
      else if opcode \<in> {0xE3}
      then Some h_xthl
      else if opcode \<in> {0xE6}
      then Some h_ani
      else if opcode \<in> {0xE9}
      then Some h_pchl
      else if opcode \<in> {0xEB}
      then Some h_xchg
      else if opcode \<in> {0xEE}
      then Some h_xri
      else if opcode \<in> {0xF3, 0xFB}
      then Some h_di_ei
      else if opcode \<in> {0xF6}
      then Some h_ori
      else if opcode \<in> {0xF9}
      then Some h_sphl
      else if opcode \<in> {0xFE}
      then Some h_cpi
      else if opcode \<in> {0x40, 0x41, 0x42, 0x43, 0x44, 0x45, 0x46, 0x47,
                      0x48, 0x49, 0x4A, 0x4B, 0x4C, 0x4D, 0x4E, 0x4F,
                      0x50, 0x51, 0x52, 0x53, 0x54, 0x55, 0x56, 0x57,
                      0x58, 0x59, 0x5A, 0x5B, 0x5C, 0x5D, 0x5E, 0x5F,
                      0x60, 0x61, 0x62, 0x63, 0x64, 0x65, 0x66, 0x67,
                      0x68, 0x69, 0x6A, 0x6B, 0x6C, 0x6D, 0x6E, 0x6F,
                      0x70, 0x71, 0x72, 0x73, 0x74, 0x75, 0x77, 0x78,
                      0x79, 0x7A, 0x7B, 0x7C, 0x7D, 0x7E, 0x7F}
      then Some h_mov
      else None)"

subsection \<open>The instruction step\<close>

text \<open>
  \<^verbatim>\<open>execute\<close> returns \<^verbatim>\<open>this.cpu_cycles\<close>; the model returns it with the state. An
  opcode without a handler raises a browser alert and changes nothing in the CPU.
\<close>

definition execute :: "int \<Rightarrow> i8080 \<Rightarrow> int \<times> i8080" where
  "execute opcode s =
     (let s = s\<lparr>last_opcode := opcode\<rparr>;
          s = (case handler opcode of Some f \<Rightarrow> f opcode s | None \<Rightarrow> s);
          s = (if iff_pending s \<noteq> 0
               then (let s = s\<lparr>iff_pending := iff_pending s - 1\<rparr>
                     in if iff_pending s = 0 then io_interrupt True (s\<lparr>iff := True\<rparr>) else s)
               else s)
      in (cpu_cycles s, s))"

definition instruction :: "i8080 \<Rightarrow> int \<times> i8080" where
  "instruction s =
     (let (opcode, s) = next_pc_byte s
      in execute opcode s)"

definition jump :: "int \<Rightarrow> i8080 \<Rightarrow> i8080" where
  "jump addr s = s\<lparr>pc := word_of_int (addr AND 0xffff)\<rparr>"

text \<open>The state after \<^verbatim>\<open>execute(opcode)\<close> and after \<^verbatim>\<open>instruction()\<close>.\<close>

abbreviation exec :: "int \<Rightarrow> i8080 \<Rightarrow> i8080" where
  "exec opcode s \<equiv> snd (execute opcode s)"

abbreviation step :: "i8080 \<Rightarrow> i8080" where
  "step s \<equiv> snd (instruction s)"

subsection \<open>The driver's memory and I/O objects\<close>

text \<open>
  \<^verbatim>\<open>new Memory()\<close> is 65536 cells of 0; the \<^verbatim>\<open>input\<close> of \<^verbatim>\<open>new IO()\<close> answers 0 on
  every port.
\<close>

definition Memory :: "word16 \<Rightarrow> byte" where
  "Memory = (\<lambda>addr. 0)"

definition IO :: "int \<Rightarrow> int" where
  "IO = (\<lambda>port. 0)"

section \<open>Vocabulary of the specification\<close>

text \<open>
  The state when the handler of \<^verbatim>\<open>execute(opcode)\<close> has returned, before the
  countdown of \<open>iff_pending\<close> at the end of \<^verbatim>\<open>execute\<close>.
\<close>

definition after_handler :: "int \<Rightarrow> i8080 \<Rightarrow> i8080" where
  "after_handler opcode s =
     (let s = s\<lparr>last_opcode := opcode\<rparr>
      in case handler opcode of Some f \<Rightarrow> f opcode s | None \<Rightarrow> s)"

text \<open>The five flags SF, ZF, HF, PF, CF.\<close>

definition five_flags :: "i8080 \<Rightarrow> bool \<times> bool \<times> bool \<times> bool \<times> bool" where
  "five_flags s = (sf s, zf s, hf s, pf s, cf s)"

text \<open>Even parity of a byte: the number of set bits among bits 0..7 is even.\<close>

definition even_parity :: "int \<Rightarrow> bool" where
  "even_parity x = even (length (filter (bit x) [0..<8]))"

text \<open>
  The outcome the specification gives for an addition of \<open>v\<close> and the carry-in to the
  accumulator value \<open>a0\<close>: the accumulator is the sum modulo 256, CF is bit 8 of the
  sum, SF, ZF and PF come from the result, and HF is the entry of the table
  \<open>{0,0,1,0,1,0,1,1}\<close> at the index made of bit 3 of \<open>a0\<close>, of \<open>v\<close> and of the result.
\<close>

definition add_outcome :: "int \<Rightarrow> int \<Rightarrow> int \<Rightarrow> i8080 \<Rightarrow> bool" where
  "add_outcome a0 v carry s \<longleftrightarrow>
     (let w = a0 + v + carry; r = w mod 256
      in uint (regs s 7) = r \<and>
         cf s = bit w 8 \<and>
         sf s = bit r 7 \<and>
         zf s = (r = 0) \<and>
         pf s = even_parity r \<and>
         hf s = table_flag [0, 0, 1, 0, 1, 0, 1, 1]
                  (4 * of_bool (bit a0 3) + 2 * of_bool (bit v 3) + of_bool (bit r 3)))"

text \<open>
  The outcome the specification gives for DAD of the pair value \<open>v\<close>, from \<open>s\<close> to
  \<open>s'\<close>: HL is the sum modulo \<open>2^16\<close>, CF is bit 16 of the sum; SF, ZF, HF and PF,
  the register file outside H (index 4) and L (index 5), SP and the memory are as
  before.
\<close>

definition dad_outcome :: "int \<Rightarrow> i8080 \<Rightarrow> i8080 \<Rightarrow> bool" where
  "dad_outcome v s s' \<longleftrightarrow>
     hl s' = (hl s + v) mod 65536 \<and>
     cf s' = bit (hl s + v) 16 \<and>
     sf s' = sf s \<and> zf s' = zf s \<and> hf s' = hf s \<and> pf s' = pf s \<and>
     regs s' = (regs s)(4 := regs s' 4, 5 := regs s' 5) \<and>
     sp s' = sp s \<and>
     memory s' = memory s"

section \<open>Auxiliary facts\<close>

subsection \<open>Masks and bits\<close>

lemma uint_byte_and_ff [simp]: "uint (x::byte) AND 0xff = uint x"
proof -
  have "take_bit 8 (uint x) = uint x"
    by (rule take_bit_int_eq_self) (use uint_lt2p [of x] in simp_all)
  then show ?thesis by (simp add: take_bit_eq_mask mask_eq_exp_minus_1)
qed

lemma byte_of_int_and_ff [simp]: "(word_of_int (x AND 0xff) :: byte) = word_of_int x"
proof -
  have "(word_of_int (take_bit 8 x) :: byte) = word_of_int x"
    by (simp add: word_of_int_eq_iff)
  then show ?thesis by (simp add: take_bit_eq_mask mask_eq_exp_minus_1)
qed

lemma word16_of_int_and_ffff [simp]:
  "(word_of_int (x AND 0xffff) :: word16) = word_of_int x"
proof -
  have "(word_of_int (take_bit 16 x) :: word16) = word_of_int x"
    by (simp add: word_of_int_eq_iff)
  then show ?thesis by (simp add: take_bit_eq_mask mask_eq_exp_minus_1)
qed

lemma and_ff_mod: "(x::int) AND 0xff = x mod 256"
proof -
  have "x AND mask 8 = x mod 2 ^ 8"
    by (simp only: take_bit_eq_mod flip: take_bit_eq_mask)
  then show ?thesis by (simp add: mask_eq_exp_minus_1)
qed

lemma and_0x80: "((x::int) AND 0x80 \<noteq> 0) = bit x 7"
  using and_exp_eq_0_iff_not_bit [of x 7] by simp

lemma and_0x100: "((x::int) AND 0x100 \<noteq> 0) = bit x 8"
  using and_exp_eq_0_iff_not_bit [of x 8] by simp

lemma and_0x10000: "((x::int) AND 0x10000 \<noteq> 0) = bit x 16"
  using and_exp_eq_0_iff_not_bit [of x 16] by simp

lemma bit3_mod256: "bit ((x::int) mod 256) 3 = bit x 3"
  using bit_take_bit_iff [of 8 x 3] by (simp add: take_bit_eq_mod)

lemma take_bit_uint_byte: "take_bit 8 (uint (x::byte)) = uint x"
  by (rule take_bit_int_eq_self) (use uint_lt2p [of x] in simp_all)

lemma drop_uint_byte: "drop_bit 8 (uint (x::byte)) = 0"
  using take_bit_uint_byte [of x] take_bit_eq_self_iff_drop_bit_eq_0 by blast

lemma drop_push_8: "drop_bit 8 (push_bit 8 (x::int)) = x"
  by (simp add: drop_bit_push_bit)

lemma word_low: "(uint (lo::byte) OR push_bit 8 y) AND 0xff = uint lo"
proof -
  have "take_bit 8 (uint lo OR push_bit 8 y) = take_bit 8 (uint lo)"
    by (rule bit_eqI) (auto simp add: bit_simps)
  then show ?thesis
    by (simp add: take_bit_uint_byte take_bit_eq_mask mask_eq_exp_minus_1)
qed

lemma byte_of_psw: "(word_of_int (push_bit 8 x OR y) :: byte) = word_of_int y"
  by (rule bit_word_eqI) (auto simp add: bit_simps)

lemma join_bytes:
  "push_bit 8 (uint (word_of_int (drop_bit 8 x) :: byte)) OR uint (word_of_int x :: byte)
     = x mod 65536"
proof -
  have "push_bit 8 (take_bit 8 (drop_bit 8 x)) OR take_bit 8 x = take_bit 16 x"
    by (rule bit_eqI) (auto simp add: bit_simps)
  then show ?thesis by (simp add: uint_word_of_int take_bit_eq_mod)
qed

text \<open>
  The index of the half-carry tables: its low three bits are bit 3 of the accumulator,
  of the operand and of the result.
\<close>

lemma index_bits_raw:
  "(drop_bit 1 ((x::int) AND 0x88) OR drop_bit 2 ((y::int) AND 0x88) OR drop_bit 3 ((z::int) AND 0x88)) AND 7
   = push_bit 2 (of_bool (bit x 3)) OR push_bit 1 (of_bool (bit y 3)) OR of_bool (bit z 3)"
proof (rule bit_eqI)
  fix n :: nat
  have seven: "(7::int) = mask 3" by (simp add: mask_eq_exp_minus_1)
  consider "n = 0" | "n = 1" | "n = 2" | "3 \<le> n" by linarith
  then show "bit ((drop_bit 1 (x AND 0x88) OR drop_bit 2 (y AND 0x88) OR drop_bit 3 (z AND 0x88)) AND 7) n
     = bit (push_bit 2 (of_bool (bit x 3)) OR push_bit 1 (of_bool (bit y 3)) OR of_bool (bit z 3) :: int) n"
  proof cases
    case 1 then show ?thesis by (simp add: bit_simps numeral_3_eq_3)
  next
    case 2 then show ?thesis by (simp add: bit_simps numeral_3_eq_3)
  next
    case 3 then show ?thesis by (simp add: bit_simps numeral_3_eq_3)
  next
    case 4 then show ?thesis by (simp add: bit_simps seven)
  qed
qed

lemma index_bits:
  "(drop_bit 1 ((x::int) AND 0x88) OR drop_bit 2 ((y::int) AND 0x88) OR drop_bit 3 ((z::int) AND 0x88)) AND 7
   = 4 * of_bool (bit x 3) + 2 * of_bool (bit y 3) + of_bool (bit z 3)"
  unfolding index_bits_raw by (cases "bit x 3"; cases "bit y 3"; cases "bit z 3") simp_all

subsection \<open>The parity table\<close>

lemma parity_table_even: "\<forall>x\<in>{0..255}. table_flag parity_table x = even_parity x"
  unfolding set_upto [symmetric] by code_simp

lemma parity_table_mod: "table_flag parity_table (x mod 256) = even_parity (x mod 256)"
  using parity_table_even by simp

subsection \<open>The dispatch table, entry by entry\<close>

lemma handler_table:
  "handler 0x00 = Some h_nop"
  "handler 0x01 = Some h_lxi"
  "handler 0x02 = Some h_stax"
  "handler 0x03 = Some h_inx"
  "handler 0x04 = Some h_inr"
  "handler 0x05 = Some h_dcr"
  "handler 0x06 = Some h_mvi"
  "handler 0x07 = Some h_rlc"
  "handler 0x08 = Some h_nop"
  "handler 0x09 = Some h_dad"
  "handler 0x0A = Some h_ldax"
  "handler 0x0B = Some h_dcx"
  "handler 0x0C = Some h_inr"
  "handler 0x0D = Some h_dcr"
  "handler 0x0E = Some h_mvi"
  "handler 0x0F = Some h_rrc"
  "handler 0x10 = Some h_nop"
  "handler 0x11 = Some h_lxi"
  "handler 0x12 = Some h_stax"
  "handler 0x13 = Some h_inx"
  "handler 0x14 = Some h_inr"
  "handler 0x15 = Some h_dcr"
  "handler 0x16 = Some h_mvi"
  "handler 0x17 = Some h_ral"
  "handler 0x18 = Some h_nop"
  "handler 0x19 = Some h_dad"
  "handler 0x1A = Some h_ldax"
  "handler 0x1B = Some h_dcx"
  "handler 0x1C = Some h_inr"
  "handler 0x1D = Some h_dcr"
  "handler 0x1E = Some h_mvi"
  "handler 0x1F = Some h_rar"
  "handler 0x20 = Some h_nop"
  "handler 0x21 = Some h_lxi"
  "handler 0x22 = Some h_shld"
  "handler 0x23 = Some h_inx"
  "handler 0x24 = Some h_inr"
  "handler 0x25 = Some h_dcr"
  "handler 0x26 = Some h_mvi"
  "handler 0x27 = Some h_daa"
  "handler 0x28 = Some h_nop"
  "handler 0x29 = Some h_dad"
  "handler 0x2A = Some h_lhld"
  "handler 0x2B = Some h_dcx"
  "handler 0x2C = Some h_inr"
  "handler 0x2D = Some h_dcr"
  "handler 0x2E = Some h_mvi"
  "handler 0x2F = Some h_cma"
  "handler 0x30 = Some h_nop"
  "handler 0x31 = Some h_lxi"
  "handler 0x32 = Some h_sta"
  "handler 0x33 = Some h_inx"
  "handler 0x34 = Some h_inr_m"
  "handler 0x35 = Some h_dcr_m"
  "handler 0x36 = Some h_mvi_m"
  "handler 0x37 = Some h_stc"
  "handler 0x38 = Some h_nop"
  "handler 0x39 = Some h_dad"
  "handler 0x3A = Some h_lda"
  "handler 0x3B = Some h_dcx"
  "handler 0x3C = Some h_inr"
  "handler 0x3D = Some h_dcr"
  "handler 0x3E = Some h_mvi"
  "handler 0x3F = Some h_cmc"
  "handler 0x40 = Some h_mov"
  "handler 0x41 = Some h_mov"
  "handler 0x42 = Some h_mov"
  "handler 0x43 = Some h_mov"
  "handler 0x44 = Some h_mov"
  "handler 0x45 = Some h_mov"
  "handler 0x46 = Some h_mov"
  "handler 0x47 = Some h_mov"
  "handler 0x48 = Some h_mov"
  "handler 0x49 = Some h_mov"
  "handler 0x4A = Some h_mov"
  "handler 0x4B = Some h_mov"
  "handler 0x4C = Some h_mov"
  "handler 0x4D = Some h_mov"
  "handler 0x4E = Some h_mov"
  "handler 0x4F = Some h_mov"
  "handler 0x50 = Some h_mov"
  "handler 0x51 = Some h_mov"
  "handler 0x52 = Some h_mov"
  "handler 0x53 = Some h_mov"
  "handler 0x54 = Some h_mov"
  "handler 0x55 = Some h_mov"
  "handler 0x56 = Some h_mov"
  "handler 0x57 = Some h_mov"
  "handler 0x58 = Some h_mov"
  "handler 0x59 = Some h_mov"
  "handler 0x5A = Some h_mov"
  "handler 0x5B = Some h_mov"
  "handler 0x5C = Some h_mov"
  "handler 0x5D = Some h_mov"
  "handler 0x5E = Some h_mov"
  "handler 0x5F = Some h_mov"
  "handler 0x60 = Some h_mov"
  "handler 0x61 = Some h_mov"
  "handler 0x62 = Some h_mov"
  "handler 0x63 = Some h_mov"
  "handler 0x64 = Some h_mov"
  "handler 0x65 = Some h_mov"
  "handler 0x66 = Some h_mov"
  "handler 0x67 = Some h_mov"
  "handler 0x68 = Some h_mov"
  "handler 0x69 = Some h_mov"
  "handler 0x6A = Some h_mov"
  "handler 0x6B = Some h_mov"
  "handler 0x6C = Some h_mov"
  "handler 0x6D = Some h_mov"
  "handler 0x6E = Some h_mov"
  "handler 0x6F = Some h_mov"
  "handler 0x70 = Some h_mov"
  "handler 0x71 = Some h_mov"
  "handler 0x72 = Some h_mov"
  "handler 0x73 = Some h_mov"
  "handler 0x74 = Some h_mov"
  "handler 0x75 = Some h_mov"
  "handler 0x76 = Some h_hlt"
  "handler 0x77 = Some h_mov"
  "handler 0x78 = Some h_mov"
  "handler 0x79 = Some h_mov"
  "handler 0x7A = Some h_mov"
  "handler 0x7B = Some h_mov"
  "handler 0x7C = Some h_mov"
  "handler 0x7D = Some h_mov"
  "handler 0x7E = Some h_mov"
  "handler 0x7F = Some h_mov"
  "handler 0x80 = Some h_add"
  "handler 0x81 = Some h_add"
  "handler 0x82 = Some h_add"
  "handler 0x83 = Some h_add"
  "handler 0x84 = Some h_add"
  "handler 0x85 = Some h_add"
  "handler 0x86 = Some h_add_m"
  "handler 0x87 = Some h_add"
  "handler 0x88 = Some h_add"
  "handler 0x89 = Some h_add"
  "handler 0x8A = Some h_add"
  "handler 0x8B = Some h_add"
  "handler 0x8C = Some h_add"
  "handler 0x8D = Some h_add"
  "handler 0x8E = Some h_add_m"
  "handler 0x8F = Some h_add"
  "handler 0x90 = Some h_sub"
  "handler 0x91 = Some h_sub"
  "handler 0x92 = Some h_sub"
  "handler 0x93 = Some h_sub"
  "handler 0x94 = Some h_sub"
  "handler 0x95 = Some h_sub"
  "handler 0x96 = Some h_sub_m"
  "handler 0x97 = Some h_sub"
  "handler 0x98 = Some h_sub"
  "handler 0x99 = Some h_sub"
  "handler 0x9A = Some h_sub"
  "handler 0x9B = Some h_sub"
  "handler 0x9C = Some h_sub"
  "handler 0x9D = Some h_sub"
  "handler 0x9E = Some h_sub_m"
  "handler 0x9F = Some h_sub"
  "handler 0xA0 = Some h_ana"
  "handler 0xA1 = Some h_ana"
  "handler 0xA2 = Some h_ana"
  "handler 0xA3 = Some h_ana"
  "handler 0xA4 = Some h_ana"
  "handler 0xA5 = Some h_ana"
  "handler 0xA6 = Some h_ana_m"
  "handler 0xA7 = Some h_ana"
  "handler 0xA8 = Some h_xra"
  "handler 0xA9 = Some h_xra"
  "handler 0xAA = Some h_xra"
  "handler 0xAB = Some h_xra"
  "handler 0xAC = Some h_xra"
  "handler 0xAD = Some h_xra"
  "handler 0xAE = Some h_xra_m"
  "handler 0xAF = Some h_xra"
  "handler 0xB0 = Some h_ora"
  "handler 0xB1 = Some h_ora"
  "handler 0xB2 = Some h_ora"
  "handler 0xB3 = Some h_ora"
  "handler 0xB4 = Some h_ora"
  "handler 0xB5 = Some h_ora"
  "handler 0xB6 = Some h_ora_m"
  "handler 0xB7 = Some h_ora"
  "handler 0xB8 = Some h_cmp"
  "handler 0xB9 = Some h_cmp"
  "handler 0xBA = Some h_cmp"
  "handler 0xBB = Some h_cmp"
  "handler 0xBC = Some h_cmp"
  "handler 0xBD = Some h_cmp"
  "handler 0xBE = Some h_cmp_m"
  "handler 0xBF = Some h_cmp"
  "handler 0xC0 = Some h_rcc"
  "handler 0xC1 = Some h_pop"
  "handler 0xC2 = Some h_jcc"
  "handler 0xC3 = Some h_jmp"
  "handler 0xC4 = Some h_ccc"
  "handler 0xC5 = Some h_push"
  "handler 0xC6 = Some h_adi"
  "handler 0xC7 = Some h_rst"
  "handler 0xC8 = Some h_rcc"
  "handler 0xC9 = Some h_ret"
  "handler 0xCA = Some h_jcc"
  "handler 0xCB = Some h_jmp"
  "handler 0xCC = Some h_ccc"
  "handler 0xCD = Some h_call"
  "handler 0xCE = Some h_aci"
  "handler 0xCF = Some h_rst"
  "handler 0xD0 = Some h_rcc"
  "handler 0xD1 = Some h_pop"
  "handler 0xD2 = Some h_jcc"
  "handler 0xD3 = Some h_out"
  "handler 0xD4 = Some h_ccc"
  "handler 0xD5 = Some h_push"
  "handler 0xD6 = Some h_sui"
  "handler 0xD7 = Some h_rst"
  "handler 0xD8 = Some h_rcc"
  "handler 0xD9 = Some h_ret"
  "handler 0xDA = Some h_jcc"
  "handler 0xDB = Some h_in"
  "handler 0xDC = Some h_ccc"
  "handler 0xDD = Some h_call"
  "handler 0xDE = Some h_sbi"
  "handler 0xDF = Some h_rst"
  "handler 0xE0 = Some h_rcc"
  "handler 0xE1 = Some h_pop"
  "handler 0xE2 = Some h_jcc"
  "handler 0xE3 = Some h_xthl"
  "handler 0xE4 = Some h_ccc"
  "handler 0xE5 = Some h_push"
  "handler 0xE6 = Some h_ani"
  "handler 0xE7 = Some h_rst"
  "handler 0xE8 = Some h_rcc"
  "handler 0xE9 = Some h_pchl"
  "handler 0xEA = Some h_jcc"
  "handler 0xEB = Some h_xchg"
  "handler 0xEC = Some h_ccc"
  "handler 0xED = Some h_call"
  "handler 0xEE = Some h_xri"
  "handler 0xEF = Some h_rst"
  "handler 0xF0 = Some h_rcc"
  "handler 0xF1 = Some h_pop"
  "handler 0xF2 = Some h_jcc"
  "handler 0xF3 = Some h_di_ei"
  "handler 0xF4 = Some h_ccc"
  "handler 0xF5 = Some h_push"
  "handler 0xF6 = Some h_ori"
  "handler 0xF7 = Some h_rst"
  "handler 0xF8 = Some h_rcc"
  "handler 0xF9 = Some h_sphl"
  "handler 0xFA = Some h_jcc"
  "handler 0xFB = Some h_di_ei"
  "handler 0xFC = Some h_ccc"
  "handler 0xFD = Some h_call"
  "handler 0xFE = Some h_cpi"
  "handler 0xFF = Some h_rst"
  by (simp_all add: handler_def)

text \<open>Every opcode byte has a handler: the alert branch of \<^verbatim>\<open>execute\<close> is dead.\<close>

lemma handler_total_list: "list_all (\<lambda>op. handler op \<noteq> None) [0..255]"
  by (simp add: upto_rec1 [of 0 255] upto_rec1 [of 1 255] handler_table)

lemma handler_total: "0 \<le> op \<Longrightarrow> op \<le> 255 \<Longrightarrow> handler op \<noteq> None"
  using handler_total_list unfolding list_all_iff by simp

subsection \<open>\<^verbatim>\<open>execute\<close> in two halves\<close>

lemma exec_after_handler:
  "regs (exec op s) = regs (after_handler op s)"
  "memory (exec op s) = memory (after_handler op s)"
  "sp (exec op s) = sp (after_handler op s)"
  "pc (exec op s) = pc (after_handler op s)"
  "sf (exec op s) = sf (after_handler op s)"
  "zf (exec op s) = zf (after_handler op s)"
  "hf (exec op s) = hf (after_handler op s)"
  "pf (exec op s) = pf (after_handler op s)"
  "cf (exec op s) = cf (after_handler op s)"
  "cpu_cycles (exec op s) = cpu_cycles (after_handler op s)"
  "five_flags (exec op s) = five_flags (after_handler op s)"
  by (simp_all add: execute_def after_handler_def five_flags_def Let_def io_interrupt_def)

lemma end_of_instruction:
  "iff_pending (exec op s) = (if iff_pending (after_handler op s) \<noteq> 0 then iff_pending (after_handler op s) - 1 else 0)"
  "iff (exec op s) = (if iff_pending (after_handler op s) = 1 then True else iff (after_handler op s))"
  "io_log (exec op s) = (if iff_pending (after_handler op s) = 1 then io_log (after_handler op s) @ [Interrupt True]
       else io_log (after_handler op s))"
  by (simp_all add: execute_def after_handler_def Let_def io_interrupt_def)

lemma after_ei: "after_handler 0xFB s = s\<lparr>last_opcode := 0xFB, vcycles := T4, cpu_cycles := 4, iff_pending := 2\<rparr>"
  by (simp add: after_handler_def handler_table h_di_ei_def)

text \<open>\<^verbatim>\<open>instruction()\<close> is the fetch of the byte at \<open>pc\<close> followed by \<^verbatim>\<open>execute\<close>.\<close>

lemma instruction_fetch:
  "instruction s = execute (uint (memory s (pc s))) (s\<lparr>pc := pc s + 1\<rparr>)"
  by (simp add: instruction_def next_pc_byte_def memory_read_byte_def Let_def)

subsection \<open>What an operand read depends on\<close>

lemma reg_cong: "regs t = regs s \<Longrightarrow> memory t = memory s \<Longrightarrow> reg r t = reg r s"
  by (simp add: reg_def hl_def rp_def memory_read_byte_def)

lemma rp_cong: "regs t = regs s \<Longrightarrow> sp t = sp s \<Longrightarrow> rp r t = rp r s"
  by (simp add: rp_def)

subsection \<open>No handler but EI writes \<open>iff_pending\<close>\<close>

lemma iff_pending_prims [simp]:
  "iff_pending (memory_write_byte addr w8 q s) = iff_pending s"
  "iff_pending (memory_write_word addr w16 q s) = iff_pending s"
  "iff_pending (set_reg r w8 s) = iff_pending s"
  "iff_pending (set_rp r w16 s) = iff_pending s"
  "iff_pending (snd (next_pc_byte s)) = iff_pending s"
  "iff_pending (snd (next_pc_word s)) = iff_pending s"
  "iff_pending (retrieve_flags f s) = iff_pending s"
  "iff_pending (io_output port w8 s) = iff_pending s"
  "iff_pending (snd (io_input port s)) = iff_pending s"
  by (simp_all add: memory_write_byte_def memory_write_word_def set_reg_def set_rp_def
      next_pc_byte_def next_pc_word_def retrieve_flags_def io_output_def io_input_def
      Let_def split_beta)

lemma iff_pending_alu [simp]:
  "iff_pending (inr r s) = iff_pending s"
  "iff_pending (dcr r s) = iff_pending s"
  "iff_pending (add_im8 v k s) = iff_pending s"
  "iff_pending (sub_im8 v k s) = iff_pending s"
  "iff_pending (cmp_im8 v s) = iff_pending s"
  "iff_pending (ana_im8 v s) = iff_pending s"
  "iff_pending (xra_im8 v s) = iff_pending s"
  "iff_pending (ora_im8 v s) = iff_pending s"
  "iff_pending (dad r s) = iff_pending s"
  by (simp_all add: inr_def dcr_def add_im8_def sub_im8_def cmp_im8_def ana_im8_def xra_im8_def
      ora_im8_def dad_def set_a_def set_h_def set_l_def Let_def)

lemma iff_pending_stack [simp]:
  "iff_pending (push v s) = iff_pending s"
  "iff_pending (snd (pop s)) = iff_pending s"
  "iff_pending (call w16 s) = iff_pending s"
  "iff_pending (ret s) = iff_pending s"
  "iff_pending (rst addr s) = iff_pending s"
  by (simp_all add: push_def pop_def call_def ret_def rst_def Let_def split_beta)

lemma iff_pending_handlers:
  "iff_pending (h_nop op s) = iff_pending s"
  "iff_pending (h_lxi op s) = iff_pending s"
  "iff_pending (h_stax op s) = iff_pending s"
  "iff_pending (h_inx op s) = iff_pending s"
  "iff_pending (h_inr op s) = iff_pending s"
  "iff_pending (h_inr_m op s) = iff_pending s"
  "iff_pending (h_dcr op s) = iff_pending s"
  "iff_pending (h_dcr_m op s) = iff_pending s"
  "iff_pending (h_mvi op s) = iff_pending s"
  "iff_pending (h_mvi_m op s) = iff_pending s"
  "iff_pending (h_rlc op s) = iff_pending s"
  "iff_pending (h_dad op s) = iff_pending s"
  "iff_pending (h_ldax op s) = iff_pending s"
  "iff_pending (h_dcx op s) = iff_pending s"
  "iff_pending (h_rrc op s) = iff_pending s"
  "iff_pending (h_ral op s) = iff_pending s"
  "iff_pending (h_rar op s) = iff_pending s"
  "iff_pending (h_shld op s) = iff_pending s"
  "iff_pending (h_daa op s) = iff_pending s"
  "iff_pending (h_lhld op s) = iff_pending s"
  "iff_pending (h_cma op s) = iff_pending s"
  "iff_pending (h_sta op s) = iff_pending s"
  "iff_pending (h_stc op s) = iff_pending s"
  "iff_pending (h_lda op s) = iff_pending s"
  "iff_pending (h_cmc op s) = iff_pending s"
  "iff_pending (h_hlt op s) = iff_pending s"
  "iff_pending (h_add op s) = iff_pending s"
  "iff_pending (h_add_m op s) = iff_pending s"
  "iff_pending (h_sub op s) = iff_pending s"
  "iff_pending (h_sub_m op s) = iff_pending s"
  "iff_pending (h_ana op s) = iff_pending s"
  "iff_pending (h_ana_m op s) = iff_pending s"
  "iff_pending (h_xra op s) = iff_pending s"
  "iff_pending (h_xra_m op s) = iff_pending s"
  "iff_pending (h_ora op s) = iff_pending s"
  "iff_pending (h_ora_m op s) = iff_pending s"
  "iff_pending (h_cmp op s) = iff_pending s"
  "iff_pending (h_cmp_m op s) = iff_pending s"
  "iff_pending (h_rcc op s) = iff_pending s"
  "iff_pending (h_pop op s) = iff_pending s"
  "iff_pending (h_jcc op s) = iff_pending s"
  "iff_pending (h_jmp op s) = iff_pending s"
  "iff_pending (h_ccc op s) = iff_pending s"
  "iff_pending (h_push op s) = iff_pending s"
  "iff_pending (h_adi op s) = iff_pending s"
  "iff_pending (h_rst op s) = iff_pending s"
  "iff_pending (h_ret op s) = iff_pending s"
  "iff_pending (h_call op s) = iff_pending s"
  "iff_pending (h_aci op s) = iff_pending s"
  "iff_pending (h_out op s) = iff_pending s"
  "iff_pending (h_sui op s) = iff_pending s"
  "iff_pending (h_in op s) = iff_pending s"
  "iff_pending (h_sbi op s) = iff_pending s"
  "iff_pending (h_xthl op s) = iff_pending s"
  "iff_pending (h_ani op s) = iff_pending s"
  "iff_pending (h_pchl op s) = iff_pending s"
  "iff_pending (h_xchg op s) = iff_pending s"
  "iff_pending (h_xri op s) = iff_pending s"
  "iff_pending (h_ori op s) = iff_pending s"
  "iff_pending (h_sphl op s) = iff_pending s"
  "iff_pending (h_cpi op s) = iff_pending s"
  "iff_pending (h_mov op s) = iff_pending s"
  by (simp_all add: h_nop_def h_lxi_def h_stax_def h_inx_def h_inr_def h_inr_m_def h_dcr_def h_dcr_m_def h_mvi_def h_mvi_m_def h_rlc_def h_dad_def h_ldax_def h_dcx_def h_rrc_def h_ral_def h_rar_def h_shld_def h_daa_def h_lhld_def h_cma_def h_sta_def h_stc_def h_lda_def h_cmc_def h_hlt_def h_add_def h_add_m_def h_sub_def h_sub_m_def h_ana_def h_ana_m_def h_xra_def h_xra_m_def h_ora_def h_ora_m_def h_cmp_def h_cmp_m_def h_rcc_def h_pop_def h_jcc_def h_jmp_def h_ccc_def h_push_def h_adi_def h_rst_def h_ret_def h_call_def h_aci_def h_out_def h_sui_def h_in_def h_sbi_def h_xthl_def h_ani_def h_pchl_def h_xchg_def h_xri_def h_ori_def h_sphl_def h_cpi_def h_mov_def
      add_def sub_def cmp_def ana_def xra_def ora_def
      set_a_def set_b_def set_c_def set_d_def set_e_def set_h_def set_l_def
      Let_def split_beta)

lemma iff_pending_after_handler:
  assumes "op \<noteq> 0xFB"
  shows "iff_pending (after_handler op s) = iff_pending s"
  using assms
  by (simp add: after_handler_def handler_def iff_pending_handlers h_di_ei_def io_interrupt_def)

section \<open>Interrupt enable: DI\<close>

text \<open>
  What DI does depends on \<open>iff_pending\<close>, which its handler does not touch. With
  nothing pending it disables interrupts. One instruction after EI, where
  \<open>iff_pending\<close> is 1, the countdown at the end of \<^verbatim>\<open>execute\<close> reaches 0 in the same
  call and sets \<open>iff\<close> again.
\<close>

lemma di_nothing_pending:
  assumes "iff_pending s = 0"
  shows "\<not> iff (exec 0xF3 s) \<and> iff_pending (exec 0xF3 s) = 0 \<and>
    io_log (exec 0xF3 s) = io_log s @ [Interrupt False]"
  using assms
  by (simp add: end_of_instruction after_handler_def handler_table h_di_ei_def io_interrupt_def)

lemma di_one_pending:
  assumes "iff_pending s = 1"
  shows "iff (exec 0xF3 s) \<and> iff_pending (exec 0xF3 s) = 0 \<and>
    io_log (exec 0xF3 s) = io_log s @ [Interrupt False, Interrupt True]"
  using assms
  by (simp add: end_of_instruction after_handler_def handler_table h_di_ei_def io_interrupt_def)

text \<open>
  C1. The specification has DI leave \<open>iff = false\<close> and \<open>iff_pending = 0\<close>. Here the
  program \<open>EI; DI\<close> runs from address 0 of a fresh machine, by two calls of
  \<^verbatim>\<open>instruction()\<close>: EI leaves \<open>iff_pending = 1\<close>, and after the DI \<open>iff\<close> is true; the
  back-end was told \<open>interrupt(false)\<close> and then \<open>interrupt(true)\<close>.
\<close>

theorem di_after_ei_leaves_iff_set:
  "iff_pending (step (I8080 (Memory(0 := 0xFB, 1 := 0xF3)) IO)) = 1 \<and>
   iff (step (step (I8080 (Memory(0 := 0xFB, 1 := 0xF3)) IO))) \<and>
   io_log (step (step (I8080 (Memory(0 := 0xFB, 1 := 0xF3)) IO)))
     = [Interrupt False, Interrupt True]"
  by (simp add: instruction_def next_pc_byte_def memory_read_byte_def execute_def
      handler_table h_di_ei_def Let_def io_interrupt_def I8080_def Memory_def)

section \<open>Decimal adjust\<close>

text \<open>
  C2, as stated: from \<open>A = 0x3A\<close>, \<open>CF = 1\<close>, \<open>HF = 0\<close>, DAA gives \<open>A = 0x40\<close>. It does
  not: the low nibble exceeds 9, so 6 is added, and CF is set, so 0x60 is added as
  well; the accumulator becomes \<open>0x3A + 0x66 = 0xA0\<close>.
\<close>

theorem daa_3A_not_40:
  "regs (exec 0x27 ((I8080 Memory IO)\<lparr>cf := True, regs := (regs (I8080 Memory IO))(7 := 0x3A)\<rparr>)) 7
     \<noteq> 0x40"
  by (simp add: exec_after_handler after_handler_def handler_table h_daa_def Let_def I8080_def
      add_im8_def a_def reg_def set_a_def set_reg_def)

text \<open>
  C2, amended: from every state with \<open>A = 0x3A\<close>, \<open>CF = 1\<close> and \<open>HF = 0\<close>, DAA gives
  \<open>A = 0xA0\<close> and \<open>CF = 1\<close>.
\<close>

theorem daa_3A:
  assumes "regs s 7 = 0x3A" and "cf s" and "\<not> hf s"
  shows "regs (exec 0x27 s) 7 = 0xA0 \<and> cf (exec 0x27 s)"
  using assms
  by (simp add: exec_after_handler after_handler_def handler_table h_daa_def Let_def
      add_im8_def a_def reg_def set_a_def set_reg_def)

theorem daa_3A_witness:
  "regs ((I8080 Memory IO)\<lparr>cf := True, regs := (regs (I8080 Memory IO))(7 := 0x3A)\<rparr>) 7 = 0x3A \<and>
   cf ((I8080 Memory IO)\<lparr>cf := True, regs := (regs (I8080 Memory IO))(7 := 0x3A)\<rparr>) \<and>
   \<not> hf ((I8080 Memory IO)\<lparr>cf := True, regs := (regs (I8080 Memory IO))(7 := 0x3A)\<rparr>) \<and>
   regs (exec 0x27 ((I8080 Memory IO)\<lparr>cf := True, regs := (regs (I8080 Memory IO))(7 := 0x3A)\<rparr>)) 7
     = 0xA0 \<and>
   cf (exec 0x27 ((I8080 Memory IO)\<lparr>cf := True, regs := (regs (I8080 Memory IO))(7 := 0x3A)\<rparr>))"
proof -
  let ?s = "(I8080 Memory IO)\<lparr>cf := True, regs := (regs (I8080 Memory IO))(7 := 0x3A)\<rparr>"
  have a7: "regs ?s 7 = 0x3A" by simp
  have carry: "cf ?s" by simp
  have half: "\<not> hf ?s" by (simp add: I8080_def)
  from daa_3A [OF a7 carry half] a7 carry half show ?thesis by blast
qed

section \<open>The ADD family\<close>

lemma add_im8_regs:
  "regs (add_im8 v carry s) = (regs s)(7 := word_of_int (uint (regs s 7) + v + carry))"
  by (simp add: add_im8_def a_def reg_def set_a_def set_reg_def Let_def)

lemma add_im8_a: "uint (regs (add_im8 v carry s) 7) = (uint (regs s 7) + v + carry) mod 256"
  unfolding add_im8_regs by (simp only: fun_upd_same uint_word_of_int) simp

lemma add_im8_cf: "cf (add_im8 v carry s) = bit (uint (regs s 7) + v + carry) 8"
  by (simp add: add_im8_def a_def reg_def set_a_def set_reg_def Let_def and_0x100)

lemma add_im8_sf: "sf (add_im8 v carry s) = bit ((uint (regs s 7) + v + carry) mod 256) 7"
  by (simp add: add_im8_def a_def reg_def set_a_def set_reg_def Let_def and_0x80 and_ff_mod)

lemma add_im8_zf: "zf (add_im8 v carry s) = ((uint (regs s 7) + v + carry) mod 256 = 0)"
  by (simp add: add_im8_def a_def reg_def set_a_def set_reg_def Let_def and_ff_mod)

lemma add_im8_pf: "pf (add_im8 v carry s) = even_parity ((uint (regs s 7) + v + carry) mod 256)"
  by (simp add: add_im8_def a_def reg_def set_a_def set_reg_def Let_def and_ff_mod parity_table_mod)

lemma add_im8_hf: "hf (add_im8 v carry s) =
  table_flag [0, 0, 1, 0, 1, 0, 1, 1]
    (4 * of_bool (bit (uint (regs s 7)) 3) + 2 * of_bool (bit v 3)
       + of_bool (bit ((uint (regs s 7) + v + carry) mod 256) 3))"
  unfolding add_im8_def Let_def index_bits bit3_mod256
  by (simp add: a_def reg_def set_a_def set_reg_def half_carry_table_def)

lemma add_im8_outcome: "add_outcome (uint (regs s 7)) v carry (add_im8 v carry s)"
  unfolding add_outcome_def Let_def
  by (simp only: add_im8_a add_im8_cf add_im8_sf add_im8_zf add_im8_pf add_im8_hf simp_thms)

lemma add_outcome_exec:
  "add_outcome x v k (exec op s) = add_outcome x v k (after_handler op s)"
  by (simp add: add_outcome_def exec_after_handler)

lemma h_add_outcome:
  "add_outcome (uint (regs s 7)) (reg (op AND 7) s) (if op AND 8 \<noteq> 0 then of_bool (cf s) else 0)
     (h_add op (s\<lparr>last_opcode := x\<rparr>))"
proof -
  let ?s1 = "s\<lparr>last_opcode := x, vcycles := T4, cpu_cycles := 4\<rparr>"
  have r: "reg (op AND 7) ?s1 = reg (op AND 7) s" by (rule reg_cong) simp_all
  have "h_add op (s\<lparr>last_opcode := x\<rparr>)
      = add_im8 (reg (op AND 7) s) (if op AND 8 \<noteq> 0 then of_bool (cf s) else 0) ?s1"
    by (simp add: h_add_def add_def Let_def r)
  moreover have "add_outcome (uint (regs ?s1 7)) (reg (op AND 7) s) (if op AND 8 \<noteq> 0 then of_bool (cf s) else 0)
     (add_im8 (reg (op AND 7) s) (if op AND 8 \<noteq> 0 then of_bool (cf s) else 0) ?s1)"
    by (rule add_im8_outcome)
  ultimately show ?thesis by simp
qed

lemma h_add_m_outcome:
  "add_outcome (uint (regs s 7)) (reg (op AND 7) s) (if op AND 8 \<noteq> 0 then of_bool (cf s) else 0)
     (h_add_m op (s\<lparr>last_opcode := x\<rparr>))"
proof -
  let ?s1 = "s\<lparr>last_opcode := x, vcycles := T43, cpu_cycles := 7\<rparr>"
  have r: "reg (op AND 7) ?s1 = reg (op AND 7) s" by (rule reg_cong) simp_all
  have "h_add_m op (s\<lparr>last_opcode := x\<rparr>)
      = add_im8 (reg (op AND 7) s) (if op AND 8 \<noteq> 0 then of_bool (cf s) else 0) ?s1"
    by (simp add: h_add_m_def add_def Let_def r)
  moreover have "add_outcome (uint (regs ?s1 7)) (reg (op AND 7) s) (if op AND 8 \<noteq> 0 then of_bool (cf s) else 0)
     (add_im8 (reg (op AND 7) s) (if op AND 8 \<noteq> 0 then of_bool (cf s) else 0) ?s1)"
    by (rule add_im8_outcome)
  ultimately show ?thesis by simp
qed

lemma exec_add_all:
  assumes "op \<in> {0x80, 0x81, 0x82, 0x83, 0x84, 0x85, 0x86, 0x87,
                  0x88, 0x89, 0x8A, 0x8B, 0x8C, 0x8D, 0x8E, 0x8F}"
  shows "add_outcome (uint (regs s 7)) (reg (op AND 7) s)
           (if op AND 8 \<noteq> 0 then of_bool (cf s) else 0) (exec op s)"
  using assms h_add_outcome [of s _ op] h_add_m_outcome [of s _ op]
  by (elim insertE emptyE)
    (simp_all only: add_outcome_exec after_handler_def Let_def handler_table option.case)

lemma h_adi_outcome:
  "add_outcome (uint (regs s 7)) (uint (memory s (pc s))) 0 (h_adi op (s\<lparr>last_opcode := x\<rparr>))"
proof -
  let ?s2 = "snd (next_pc_byte (s\<lparr>last_opcode := x, vcycles := T43, cpu_cycles := 7\<rparr>))"
  have "h_adi op (s\<lparr>last_opcode := x\<rparr>) = add_im8 (uint (memory s (pc s))) 0 ?s2"
    by (simp add: h_adi_def Let_def next_pc_byte_def memory_read_byte_def)
  moreover have "add_outcome (uint (regs ?s2 7)) (uint (memory s (pc s))) 0
     (add_im8 (uint (memory s (pc s))) 0 ?s2)"
    by (rule add_im8_outcome)
  moreover have "regs ?s2 = regs s" by (simp add: next_pc_byte_def Let_def)
  ultimately show ?thesis by simp
qed

lemma h_aci_outcome:
  "add_outcome (uint (regs s 7)) (uint (memory s (pc s))) (of_bool (cf s)) (h_aci op (s\<lparr>last_opcode := x\<rparr>))"
proof -
  let ?s2 = "snd (next_pc_byte (s\<lparr>last_opcode := x, vcycles := T43, cpu_cycles := 7\<rparr>))"
  have "h_aci op (s\<lparr>last_opcode := x\<rparr>) = add_im8 (uint (memory s (pc s))) (of_bool (cf s)) ?s2"
    by (simp add: h_aci_def Let_def next_pc_byte_def memory_read_byte_def)
  moreover have "add_outcome (uint (regs ?s2 7)) (uint (memory s (pc s))) (of_bool (cf s))
     (add_im8 (uint (memory s (pc s))) (of_bool (cf s)) ?s2)"
    by (rule add_im8_outcome)
  moreover have "regs ?s2 = regs s" by (simp add: next_pc_byte_def Let_def)
  ultimately show ?thesis by simp
qed

lemma exec_adi: "add_outcome (uint (regs s 7)) (uint (memory s (pc s))) 0 (exec 0xC6 s)"
  using h_adi_outcome [of s "0xC6" "0xC6"]
  by (simp add: add_outcome_exec after_handler_def handler_table)

lemma exec_aci:
  "add_outcome (uint (regs s 7)) (uint (memory s (pc s))) (of_bool (cf s)) (exec 0xCE s)"
  using h_aci_outcome [of s "0xCE" "0xCE"]
  by (simp add: add_outcome_exec after_handler_def handler_table)

lemma add_88_88:
  assumes "regs s 7 = 0x88" and "regs s 0 = 0x88"
  shows "regs (exec 0x80 s) 7 = 0x10 \<and> cf (exec 0x80 s) \<and> hf (exec 0x80 s) \<and>
      \<not> sf (exec 0x80 s) \<and> \<not> zf (exec 0x80 s) \<and> \<not> pf (exec 0x80 s)"
  using assms
  by (simp add: exec_after_handler after_handler_def handler_table h_add_def add_def add_im8_def
      Let_def a_def reg_def set_a_def set_reg_def table_flag_def half_carry_table_def
      parity_table_def)

text \<open>
  C3. For every accumulator value, operand and carry-in, \<^verbatim>\<open>add_im8\<close> produces the
  outcome of the specification (the operand and the carry-in need not even be in
  range). ADD r and ADD M (0x80..0x87) apply it to the register or memory operand
  with carry-in 0, ADC (0x88..0x8F) with carry-in CF, ADI (0xC6) and ACI (0xCE) to the
  byte at \<open>pc\<close>. With \<open>A = B = 0x88\<close>, ADD B gives \<open>A = 0x10\<close>, CF = 1, HF = 1, SF = 0,
  ZF = 0, PF = 0.
\<close>

theorem add_family:
  "add_outcome (uint (regs s 7)) v carry (add_im8 v carry s) \<and>
   (\<forall>op\<in>{0x80, 0x81, 0x82, 0x83, 0x84, 0x85, 0x86, 0x87}.
      add_outcome (uint (regs s 7)) (reg (op AND 7) s) 0 (exec op s)) \<and>
   (\<forall>op\<in>{0x88, 0x89, 0x8A, 0x8B, 0x8C, 0x8D, 0x8E, 0x8F}.
      add_outcome (uint (regs s 7)) (reg (op AND 7) s) (of_bool (cf s)) (exec op s)) \<and>
   add_outcome (uint (regs s 7)) (uint (memory s (pc s))) 0 (exec 0xC6 s) \<and>
   add_outcome (uint (regs s 7)) (uint (memory s (pc s))) (of_bool (cf s)) (exec 0xCE s) \<and>
   (regs s 7 = 0x88 \<and> regs s 0 = 0x88 \<longrightarrow>
      regs (exec 0x80 s) 7 = 0x10 \<and> cf (exec 0x80 s) \<and> hf (exec 0x80 s) \<and>
      \<not> sf (exec 0x80 s) \<and> \<not> zf (exec 0x80 s) \<and> \<not> pf (exec 0x80 s))"
proof (intro conjI ballI impI)
  show "add_outcome (uint (regs s 7)) v carry (add_im8 v carry s)"
    by (rule add_im8_outcome)
next
  fix op :: int
  assume op: "op \<in> {0x80, 0x81, 0x82, 0x83, 0x84, 0x85, 0x86, 0x87}"
  then have "op AND 8 = 0" by (elim insertE emptyE) simp_all
  moreover from op have "op \<in> {0x80, 0x81, 0x82, 0x83, 0x84, 0x85, 0x86, 0x87, 0x88, 0x89, 0x8A, 0x8B, 0x8C, 0x8D, 0x8E, 0x8F}"
    by blast
  ultimately show "add_outcome (uint (regs s 7)) (reg (op AND 7) s) 0 (exec op s)"
    using exec_add_all [of op s] by simp
next
  fix op :: int
  assume op: "op \<in> {0x88, 0x89, 0x8A, 0x8B, 0x8C, 0x8D, 0x8E, 0x8F}"
  then have "op AND 8 \<noteq> 0" by (elim insertE emptyE) simp_all
  moreover from op have "op \<in> {0x80, 0x81, 0x82, 0x83, 0x84, 0x85, 0x86, 0x87, 0x88, 0x89, 0x8A, 0x8B, 0x8C, 0x8D, 0x8E, 0x8F}"
    by blast
  ultimately show "add_outcome (uint (regs s 7)) (reg (op AND 7) s) (of_bool (cf s)) (exec op s)"
    using exec_add_all [of op s] by simp
next
  show "add_outcome (uint (regs s 7)) (uint (memory s (pc s))) 0 (exec 0xC6 s)"
    by (rule exec_adi)
next
  show "add_outcome (uint (regs s 7)) (uint (memory s (pc s))) (of_bool (cf s)) (exec 0xCE s)"
    by (rule exec_aci)
next
  assume "regs s 7 = 0x88 \<and> regs s 0 = 0x88"
  then have *: "regs (exec 0x80 s) 7 = 0x10 \<and> cf (exec 0x80 s) \<and> hf (exec 0x80 s) \<and>
      \<not> sf (exec 0x80 s) \<and> \<not> zf (exec 0x80 s) \<and> \<not> pf (exec 0x80 s)"
    using add_88_88 by blast
  from * show "regs (exec 0x80 s) 7 = 0x10" by blast
  from * show "cf (exec 0x80 s)" by blast
  from * show "hf (exec 0x80 s)" by blast
  from * show "\<not> sf (exec 0x80 s)" by blast
  from * show "\<not> zf (exec 0x80 s)" by blast
  from * show "\<not> pf (exec 0x80 s)" by blast
qed

theorem add_family_witness:
  "(0x80::int) \<in> {0x80, 0x81, 0x82, 0x83, 0x84, 0x85, 0x86, 0x87} \<and>
   (0x88::int) \<in> {0x88, 0x89, 0x8A, 0x8B, 0x8C, 0x8D, 0x8E, 0x8F} \<and>
   regs ((I8080 Memory IO)\<lparr>cf := True, regs := (regs (I8080 Memory IO))(7 := 0x88, 0 := 0x88)\<rparr>) 7
     = 0x88 \<and>
   regs ((I8080 Memory IO)\<lparr>cf := True, regs := (regs (I8080 Memory IO))(7 := 0x88, 0 := 0x88)\<rparr>) 0
     = 0x88 \<and>
   add_outcome 0x88 0x88 0
     (exec 0x80 ((I8080 Memory IO)\<lparr>cf := True, regs := (regs (I8080 Memory IO))(7 := 0x88, 0 := 0x88)\<rparr>)) \<and>
   add_outcome 0x88 0x88 1
     (exec 0x88 ((I8080 Memory IO)\<lparr>cf := True, regs := (regs (I8080 Memory IO))(7 := 0x88, 0 := 0x88)\<rparr>)) \<and>
   regs (exec 0x80 ((I8080 Memory IO)\<lparr>cf := True, regs := (regs (I8080 Memory IO))(7 := 0x88, 0 := 0x88)\<rparr>)) 7
     = 0x10 \<and>
   cf (exec 0x80 ((I8080 Memory IO)\<lparr>cf := True, regs := (regs (I8080 Memory IO))(7 := 0x88, 0 := 0x88)\<rparr>)) \<and>
   hf (exec 0x80 ((I8080 Memory IO)\<lparr>cf := True, regs := (regs (I8080 Memory IO))(7 := 0x88, 0 := 0x88)\<rparr>))"
proof -
  let ?s = "(I8080 Memory IO)\<lparr>cf := True, regs := (regs (I8080 Memory IO))(7 := 0x88, 0 := 0x88)\<rparr>"
  have add_op: "(0x80::int) \<in> {0x80, 0x81, 0x82, 0x83, 0x84, 0x85, 0x86, 0x87}" by simp
  have adc_op: "(0x88::int) \<in> {0x88, 0x89, 0x8A, 0x8B, 0x8C, 0x8D, 0x8E, 0x8F}" by simp
  have a7: "regs ?s 7 = 0x88" by simp
  have b0: "regs ?s 0 = 0x88" by simp
  have add_operand: "reg (0x80 AND 7) ?s = 0x88" by (simp add: reg_def)
  have adc_operand: "reg (0x88 AND 7) ?s = 0x88" by (simp add: reg_def)
  have carry_in: "of_bool (cf ?s) = (1::int)" by simp
  from add_family [of ?s 0 0] have
    all_add: "\<forall>op\<in>{0x80, 0x81, 0x82, 0x83, 0x84, 0x85, 0x86, 0x87}.
      add_outcome (uint (regs ?s 7)) (reg (op AND 7) ?s) 0 (exec op ?s)"
    and all_adc: "\<forall>op\<in>{0x88, 0x89, 0x8A, 0x8B, 0x8C, 0x8D, 0x8E, 0x8F}.
      add_outcome (uint (regs ?s 7)) (reg (op AND 7) ?s) (of_bool (cf ?s)) (exec op ?s)"
    and example: "regs ?s 7 = 0x88 \<and> regs ?s 0 = 0x88 \<longrightarrow>
      regs (exec 0x80 ?s) 7 = 0x10 \<and> cf (exec 0x80 ?s) \<and> hf (exec 0x80 ?s) \<and>
      \<not> sf (exec 0x80 ?s) \<and> \<not> zf (exec 0x80 ?s) \<and> \<not> pf (exec 0x80 ?s)"
    by blast+
  from all_add add_op
  have "add_outcome (uint (regs ?s 7)) (reg (0x80 AND 7) ?s) 0 (exec 0x80 ?s)"
    by (rule bspec)
  then have add_b: "add_outcome 0x88 0x88 0 (exec 0x80 ?s)"
    by (simp only: add_operand a7) simp
  from all_adc adc_op
  have "add_outcome (uint (regs ?s 7)) (reg (0x88 AND 7) ?s) (of_bool (cf ?s)) (exec 0x88 ?s)"
    by (rule bspec)
  then have adc_b: "add_outcome 0x88 0x88 1 (exec 0x88 ?s)"
    by (simp only: adc_operand a7 carry_in) simp
  from example a7 b0
  have "regs (exec 0x80 ?s) 7 = 0x10 \<and> cf (exec 0x80 ?s) \<and> hf (exec 0x80 ?s)"
    by blast
  with add_op adc_op a7 b0 add_b adc_b show ?thesis by blast
qed

section \<open>Interrupt enable: EI\<close>

text \<open>
  C4, as stated: \<open>iff\<close> becomes true at the end of the instruction following EI. It
  does not when that instruction is another EI: the second EI sets \<open>iff_pending\<close> back
  to 2, the countdown leaves 1, and \<open>iff\<close> is still false.
\<close>

theorem ei_ei_keeps_iff_clear:
  "\<not> iff (exec 0xFB (exec 0xFB (I8080 Memory IO)))"
  by (simp add: end_of_instruction after_ei I8080_def)

text \<open>
  C4, amended. The EI handler sets \<open>iff_pending\<close> to 2. At the end of every
  \<^verbatim>\<open>execute\<close>, a positive \<open>iff_pending\<close> is decremented; when it reaches 0 (it was 1),
  \<open>iff\<close> becomes true and \<open>interrupt(true)\<close> is called; otherwise \<open>iff\<close> and the log
  are as the handler left them. So EI itself ends with \<open>iff_pending = 1\<close> and \<open>iff\<close>
  unchanged, and \<open>iff\<close> becomes true at the end of the instruction following EI,
  provided that instruction is neither EI, which restarts the delay, nor DI. What a DI
  that follows EI leaves behind is not part of this statement: it is the defect of C1.
\<close>

theorem ei_delay:
  "iff_pending (after_handler 0xFB s) = 2 \<and>
   iff_pending (exec op s) =
     (if iff_pending (after_handler op s) = 0 then 0 else iff_pending (after_handler op s) - 1) \<and>
   iff (exec op s) = (iff_pending (after_handler op s) = 1 \<or> iff (after_handler op s)) \<and>
   io_log (exec op s) =
     io_log (after_handler op s) @
       (if iff_pending (after_handler op s) = 1 then [Interrupt True] else []) \<and>
   iff_pending (exec 0xFB s) = 1 \<and> iff (exec 0xFB s) = iff s \<and> io_log (exec 0xFB s) = io_log s \<and>
   (op \<noteq> 0xFB \<and> op \<noteq> 0xF3 \<longrightarrow>
      iff (exec op (exec 0xFB s)) \<and> iff_pending (exec op (exec 0xFB s)) = 0 \<and>
      io_log (exec op (exec 0xFB s)) = io_log (after_handler op (exec 0xFB s)) @ [Interrupt True])"
proof -
  have ei: "iff_pending (exec 0xFB s) = 1" "iff (exec 0xFB s) = iff s"
    "io_log (exec 0xFB s) = io_log s"
    by (simp_all add: end_of_instruction after_ei)
  have next_op: "iff_pending (after_handler op (exec 0xFB s)) = 1" if "op \<noteq> 0xFB"
    using that by (simp add: iff_pending_after_handler ei)
  show ?thesis
    by (simp add: end_of_instruction ei next_op) (simp add: after_ei)
qed

theorem ei_delay_witness:
  "(0::int) \<noteq> 0xFB \<and> (0::int) \<noteq> 0xF3 \<and>
   \<not> iff (exec 0xFB (I8080 Memory IO)) \<and>
   iff (exec 0 (exec 0xFB (I8080 Memory IO))) \<and>
   iff_pending (exec 0 (exec 0xFB (I8080 Memory IO))) = 0 \<and>
   io_log (exec 0 (exec 0xFB (I8080 Memory IO))) = [Interrupt True]"
proof -
  have ne: "(0::int) \<noteq> 0xFB \<and> (0::int) \<noteq> 0xF3" by simp
  have nop: "after_handler 0 t = t\<lparr>last_opcode := 0, vcycles := T4, cpu_cycles := 4\<rparr>" for t
    by (simp add: after_handler_def handler_table h_nop_def)
  have log: "io_log (after_handler 0 (exec 0xFB (I8080 Memory IO))) = []"
    by (simp add: nop end_of_instruction after_ei I8080_def)
  have "\<not> iff (I8080 Memory IO)" by (simp add: I8080_def)
  with ei_delay [of "I8080 Memory IO" 0] ne log show ?thesis by simp
qed

section \<open>Cycle counts\<close>

text \<open>
  The counts of conditional CALL (17 taken, 11 not taken) and conditional RET
  (11 taken, 5 not taken) are the documented ones.
\<close>

lemma cpu_cycles_call [simp]: "cpu_cycles (call w16 s) = cpu_cycles s"
  by (simp add: call_def push_def memory_write_word_def memory_write_byte_def Let_def)

lemma cpu_cycles_ret [simp]: "cpu_cycles (ret s) = cpu_cycles s"
  by (simp add: ret_def pop_def Let_def)

lemma conditional_call_cycles:
  assumes "op \<in> {0xC4, 0xCC, 0xD4, 0xDC, 0xE4, 0xEC, 0xF4, 0xFC}"
  shows "cpu_cycles (exec op s) =
    (if [zf s, cf s, pf s, sf s] ! nat (drop_bit 4 op AND 0x03) = (op AND 0x08 \<noteq> 0)
     then 17 else 11)"
  using assms
  by (elim insertE emptyE)
    (simp_all add: exec_after_handler after_handler_def handler_table h_ccc_def Let_def
      split_beta next_pc_word_def next_pc_byte_def)

lemma conditional_ret_cycles:
  assumes "op \<in> {0xC0, 0xC8, 0xD0, 0xD8, 0xE0, 0xE8, 0xF0, 0xF8}"
  shows "cpu_cycles (exec op s) =
    (if [zf s, cf s, pf s, sf s] ! nat (drop_bit 4 op AND 0x03) = (op AND 0x08 \<noteq> 0)
     then 11 else 5)"
  using assms
  by (elim insertE emptyE)
    (simp_all add: exec_after_handler after_handler_def handler_table h_rcc_def Let_def)

text \<open>
  C5. The documented count for HLT is 7 T-states, and the source's own comment above
  the handler says that it should be 7. The handler reports 4, from every state.
\<close>

theorem hlt_reports_4_cycles:
  "fst (execute 0x76 s) = 4 \<and> cpu_cycles (exec 0x76 s) = 4"
  by (simp add: execute_def handler_table h_hlt_def Let_def io_interrupt_def)

section \<open>HLT parks the program counter\<close>

text \<open>
  C6. If the byte at \<open>pc\<close> is 0x76, then after one \<^verbatim>\<open>instruction()\<close> the program
  counter is where it was, for every address (the arithmetic is modulo \<open>2^16\<close>).
\<close>

theorem hlt_parks_pc:
  assumes "memory s (pc s) = 0x76"
  shows "pc (step s) = pc s"
  using assms
  by (simp add: instruction_def next_pc_byte_def memory_read_byte_def execute_def
      handler_table h_hlt_def Let_def io_interrupt_def)

theorem hlt_parks_pc_witness:
  "memory (jump 0xFFFF (I8080 (Memory(0xFFFF := 0x76)) IO))
      (pc (jump 0xFFFF (I8080 (Memory(0xFFFF := 0x76)) IO))) = 0x76 \<and>
   pc (step (jump 0xFFFF (I8080 (Memory(0xFFFF := 0x76)) IO))) = 0xFFFF"
proof -
  let ?s = "jump 0xFFFF (I8080 (Memory(0xFFFF := 0x76)) IO)"
  have at_pc: "memory ?s (pc ?s) = 0x76" by (simp add: jump_def I8080_def)
  have "pc ?s = 0xFFFF" by (simp add: jump_def I8080_def)
  with hlt_parks_pc [OF at_pc] at_pc show ?thesis by simp
qed

section \<open>CMP is SUB without the write to the accumulator\<close>

lemma sub_im8_flags_cong:
  "regs t 7 = regs s 7 \<Longrightarrow> five_flags (sub_im8 v k t) = five_flags (sub_im8 v k s)"
  by (simp add: five_flags_def sub_im8_def a_def reg_def set_a_def set_reg_def Let_def)

lemma cmp_im8_flags: "five_flags (cmp_im8 v s) = five_flags (sub_im8 v 0 s)"
  by (simp add: five_flags_def cmp_im8_def sub_im8_def a_def reg_def set_a_def set_reg_def Let_def)

lemma cmp_im8_regs: "regs (cmp_im8 v s) = regs s"
  by (simp add: cmp_im8_def sub_im8_def a_def reg_def set_a_def set_reg_def Let_def)

lemma h_cmp_sub:
  assumes "op2 AND 7 = op AND 7" and "op2 AND 8 = 0"
  shows "five_flags (h_cmp op (s\<lparr>last_opcode := x\<rparr>)) = five_flags (h_sub op2 (s\<lparr>last_opcode := y\<rparr>)) \<and>
      regs (h_cmp op (s\<lparr>last_opcode := x\<rparr>)) = regs s"
proof -
  let ?c = "s\<lparr>last_opcode := x, vcycles := T4, cpu_cycles := 4\<rparr>"
  let ?d = "s\<lparr>last_opcode := y, vcycles := T4, cpu_cycles := 4\<rparr>"
  have rc: "reg (op AND 7) ?c = reg (op AND 7) s" by (rule reg_cong) simp_all
  have rd: "reg (op AND 7) ?d = reg (op AND 7) s" by (rule reg_cong) simp_all
  have cmp_eq: "h_cmp op (s\<lparr>last_opcode := x\<rparr>) = cmp_im8 (reg (op AND 7) s) ?c"
    by (simp add: h_cmp_def cmp_def Let_def rc)
  have sub_eq: "h_sub op2 (s\<lparr>last_opcode := y\<rparr>) = sub_im8 (reg (op AND 7) s) 0 ?d"
    using assms by (simp add: h_sub_def sub_def Let_def rd)
  have "five_flags (sub_im8 (reg (op AND 7) s) 0 ?c) = five_flags (sub_im8 (reg (op AND 7) s) 0 ?d)"
    by (rule sub_im8_flags_cong) simp
  then have f: "five_flags (h_cmp op (s\<lparr>last_opcode := x\<rparr>)) = five_flags (h_sub op2 (s\<lparr>last_opcode := y\<rparr>))"
    by (simp only: cmp_eq sub_eq cmp_im8_flags)
  have r: "regs (h_cmp op (s\<lparr>last_opcode := x\<rparr>)) = regs s"
    by (simp only: cmp_eq cmp_im8_regs) simp
  from f r show ?thesis by blast
qed

lemma h_cmp_m_sub_m:
  assumes "op2 AND 7 = op AND 7" and "op2 AND 8 = 0"
  shows "five_flags (h_cmp_m op (s\<lparr>last_opcode := x\<rparr>)) = five_flags (h_sub_m op2 (s\<lparr>last_opcode := y\<rparr>)) \<and>
      regs (h_cmp_m op (s\<lparr>last_opcode := x\<rparr>)) = regs s"
proof -
  let ?c = "s\<lparr>last_opcode := x, vcycles := T43, cpu_cycles := 7\<rparr>"
  let ?d = "s\<lparr>last_opcode := y, vcycles := T43, cpu_cycles := 7\<rparr>"
  have rc: "reg (op AND 7) ?c = reg (op AND 7) s" by (rule reg_cong) simp_all
  have rd: "reg (op AND 7) ?d = reg (op AND 7) s" by (rule reg_cong) simp_all
  have cmp_eq: "h_cmp_m op (s\<lparr>last_opcode := x\<rparr>) = cmp_im8 (reg (op AND 7) s) ?c"
    by (simp add: h_cmp_m_def cmp_def Let_def rc)
  have sub_eq: "h_sub_m op2 (s\<lparr>last_opcode := y\<rparr>) = sub_im8 (reg (op AND 7) s) 0 ?d"
    using assms by (simp add: h_sub_m_def sub_def Let_def rd)
  have "five_flags (sub_im8 (reg (op AND 7) s) 0 ?c) = five_flags (sub_im8 (reg (op AND 7) s) 0 ?d)"
    by (rule sub_im8_flags_cong) simp
  then have f: "five_flags (h_cmp_m op (s\<lparr>last_opcode := x\<rparr>)) = five_flags (h_sub_m op2 (s\<lparr>last_opcode := y\<rparr>))"
    by (simp only: cmp_eq sub_eq cmp_im8_flags)
  have r: "regs (h_cmp_m op (s\<lparr>last_opcode := x\<rparr>)) = regs s"
    by (simp only: cmp_eq cmp_im8_regs) simp
  from f r show ?thesis by blast
qed

lemma cpi_sui:
  shows "five_flags (h_cpi op (s\<lparr>last_opcode := x\<rparr>)) = five_flags (h_sui op2 (s\<lparr>last_opcode := y\<rparr>)) \<and>
      regs (h_cpi op (s\<lparr>last_opcode := x\<rparr>)) = regs s"
proof -
  let ?c = "snd (next_pc_byte (s\<lparr>last_opcode := x, vcycles := T43, cpu_cycles := 7\<rparr>))"
  let ?d = "snd (next_pc_byte (s\<lparr>last_opcode := y, vcycles := T43, cpu_cycles := 7\<rparr>))"
  have cmp_eq: "h_cpi op (s\<lparr>last_opcode := x\<rparr>) = cmp_im8 (uint (memory s (pc s))) ?c"
    by (simp add: h_cpi_def Let_def next_pc_byte_def memory_read_byte_def)
  have sub_eq: "h_sui op2 (s\<lparr>last_opcode := y\<rparr>) = sub_im8 (uint (memory s (pc s))) 0 ?d"
    by (simp add: h_sui_def Let_def next_pc_byte_def memory_read_byte_def)
  have "five_flags (sub_im8 (uint (memory s (pc s))) 0 ?c) = five_flags (sub_im8 (uint (memory s (pc s))) 0 ?d)"
    by (rule sub_im8_flags_cong) (simp add: next_pc_byte_def Let_def)
  then have f: "five_flags (h_cpi op (s\<lparr>last_opcode := x\<rparr>)) = five_flags (h_sui op2 (s\<lparr>last_opcode := y\<rparr>))"
    by (simp only: cmp_eq sub_eq cmp_im8_flags)
  have r: "regs (h_cpi op (s\<lparr>last_opcode := x\<rparr>)) = regs s"
    by (simp only: cmp_eq cmp_im8_regs) (simp add: next_pc_byte_def Let_def)
  from f r show ?thesis by blast
qed

lemma exec_cmp_generic:
  assumes "handler op = Some h_cmp" and "handler op2 = Some h_sub"
    and "op2 AND 7 = op AND 7" and "op2 AND 8 = 0"
  shows "regs (exec op s) 7 = regs s 7 \<and> five_flags (exec op s) = five_flags (exec op2 s)"
  using h_cmp_sub [OF assms(3,4), where s = s and x = op and y = op2]
  by (simp add: exec_after_handler after_handler_def assms(1,2))

lemma exec_cmp_m_generic:
  assumes "handler op = Some h_cmp_m" and "handler op2 = Some h_sub_m"
    and "op2 AND 7 = op AND 7" and "op2 AND 8 = 0"
  shows "regs (exec op s) 7 = regs s 7 \<and> five_flags (exec op s) = five_flags (exec op2 s)"
  using h_cmp_m_sub_m [OF assms(3,4), where s = s and x = op and y = op2]
  by (simp add: exec_after_handler after_handler_def assms(1,2))

lemma exec_cmp:
  assumes "op \<in> {0xB8, 0xB9, 0xBA, 0xBB, 0xBC, 0xBD, 0xBF}"
  shows "regs (exec op s) 7 = regs s 7 \<and> five_flags (exec op s) = five_flags (exec (op - 0x28) s)"
  using assms by (elim insertE emptyE; hypsubst; intro exec_cmp_generic; simp add: handler_table)

lemma exec_cmp_m:
  "regs (exec 0xBE s) 7 = regs s 7 \<and> five_flags (exec 0xBE s) = five_flags (exec (0xBE - 0x28) s)"
  by (intro exec_cmp_m_generic; simp add: handler_table)

lemma exec_cpi:
  "regs (exec 0xFE s) 7 = regs s 7 \<and> five_flags (exec 0xFE s) = five_flags (exec 0xD6 s)"
  using cpi_sui [where s = s and op = "0xFE" and x = "0xFE" and ?op2.0 = "0xD6" and y = "0xD6"]
  by (simp add: exec_after_handler after_handler_def handler_table)

text \<open>
  C7. \<^verbatim>\<open>cmp_im8\<close> leaves the accumulator as it was and sets the five flags as
  \<^verbatim>\<open>sub_im8\<close> with borrow-in 0 does. So does each CMP opcode against its SUB
  opcode, 0x28 below it (register operands and M), and CPI (0xFE) against SUI (0xD6).
\<close>

theorem cmp_is_sub_without_writeback:
  "(regs (cmp_im8 v s) 7 = regs s 7 \<and> five_flags (cmp_im8 v s) = five_flags (sub_im8 v 0 s)) \<and>
   (\<forall>op\<in>{0xB8, 0xB9, 0xBA, 0xBB, 0xBC, 0xBD, 0xBE, 0xBF}.
      regs (exec op s) 7 = regs s 7 \<and> five_flags (exec op s) = five_flags (exec (op - 0x28) s)) \<and>
   (regs (exec 0xFE s) 7 = regs s 7 \<and> five_flags (exec 0xFE s) = five_flags (exec 0xD6 s))"
proof (intro conjI ballI)
  show "regs (cmp_im8 v s) 7 = regs s 7" by (simp only: cmp_im8_regs)
  show "five_flags (cmp_im8 v s) = five_flags (sub_im8 v 0 s)" by (rule cmp_im8_flags)
  show "regs (exec 0xFE s) 7 = regs s 7" using exec_cpi by blast
  show "five_flags (exec 0xFE s) = five_flags (exec 0xD6 s)" using exec_cpi by blast
next
  fix op :: int
  assume op: "op \<in> {0xB8, 0xB9, 0xBA, 0xBB, 0xBC, 0xBD, 0xBE, 0xBF}"
  have both: "regs (exec op s) 7 = regs s 7 \<and> five_flags (exec op s) = five_flags (exec (op - 0x28) s)"
  proof (cases "op = 0xBE")
    case True
    then show ?thesis using exec_cmp_m by simp
  next
    case False
    with op have "op \<in> {0xB8, 0xB9, 0xBA, 0xBB, 0xBC, 0xBD, 0xBF}" by blast
    then show ?thesis by (rule exec_cmp)
  qed
  from both show "regs (exec op s) 7 = regs s 7" by blast
  from both show "five_flags (exec op s) = five_flags (exec (op - 0x28) s)" by blast
qed

theorem cmp_is_sub_without_writeback_witness:
  "(0xB8::int) \<in> {0xB8, 0xB9, 0xBA, 0xBB, 0xBC, 0xBD, 0xBE, 0xBF} \<and>
   regs (exec 0xB8 ((I8080 Memory IO)\<lparr>regs := (regs (I8080 Memory IO))(7 := 5, 0 := 7)\<rparr>)) 7 = 5 \<and>
   five_flags (exec 0xB8 ((I8080 Memory IO)\<lparr>regs := (regs (I8080 Memory IO))(7 := 5, 0 := 7)\<rparr>))
     = five_flags (exec 0x90 ((I8080 Memory IO)\<lparr>regs := (regs (I8080 Memory IO))(7 := 5, 0 := 7)\<rparr>))"
proof -
  let ?s = "(I8080 Memory IO)\<lparr>regs := (regs (I8080 Memory IO))(7 := 5, 0 := 7)\<rparr>"
  have mem: "(0xB8::int) \<in> {0xB8, 0xB9, 0xBA, 0xBB, 0xBC, 0xBD, 0xBE, 0xBF}" by simp
  from cmp_is_sub_without_writeback [of 0 ?s] have
    "\<forall>op\<in>{0xB8, 0xB9, 0xBA, 0xBB, 0xBC, 0xBD, 0xBE, 0xBF}.
      regs (exec op ?s) 7 = regs ?s 7 \<and> five_flags (exec op ?s) = five_flags (exec (op - 0x28) ?s)"
    by blast
  from this mem have
    "regs (exec 0xB8 ?s) 7 = regs ?s 7 \<and> five_flags (exec 0xB8 ?s) = five_flags (exec (0xB8 - 0x28) ?s)"
    by (rule bspec)
  with mem show ?thesis by simp
qed

section \<open>PUSH PSW and POP PSW\<close>

lemma store_flags_eq:
  "store_flags s = 128 * of_bool (sf s) + 64 * of_bool (zf s) + 16 * of_bool (hf s)
     + 4 * of_bool (pf s) + 2 + of_bool (cf s)"
  by (cases "sf s"; cases "zf s"; cases "hf s"; cases "pf s"; cases "cf s")
    (simp_all add: store_flags_def F_NEG_def F_ZERO_def F_HCARRY_def F_PARITY_def F_CARRY_def
      F_UN1_def F_UN3_def F_UN5_def)

lemma store_flags_take_bit: "take_bit 8 (store_flags s) = store_flags s"
  by (rule take_bit_int_eq_self)
    (cases "sf s"; cases "zf s"; cases "hf s"; cases "pf s"; cases "cf s"; simp add: store_flags_eq)+

lemma store_flags_bits:
  "bit (store_flags s) 1 \<and> \<not> bit (store_flags s) 3 \<and> \<not> bit (store_flags s) 5"
  by (cases "sf s"; cases "zf s"; cases "hf s"; cases "pf s"; cases "cf s")
    (simp_all add: store_flags_eq)

lemma retrieve_store_flags: "five_flags (retrieve_flags (store_flags s) t) = five_flags s"
  by (cases "sf s"; cases "zf s"; cases "hf s"; cases "pf s"; cases "cf s")
    (simp_all add: store_flags_eq retrieve_flags_def five_flags_def
      F_NEG_def F_ZERO_def F_HCARRY_def F_PARITY_def F_CARRY_def)

lemma drop_store: "drop_bit 8 (store_flags s) = 0"
  using store_flags_take_bit [of s] take_bit_eq_self_iff_drop_bit_eq_0 by blast

lemma uint_store_flags: "uint (word_of_int (store_flags s) :: byte) = store_flags s"
  using store_flags_take_bit [of s] by (simp add: uint_word_of_int take_bit_eq_mod)

lemma store_flags_upd [simp]:
  "store_flags (last_opcode_update f1 s) = store_flags s"
  "store_flags (vcycles_update f2 s) = store_flags s"
  "store_flags (cpu_cycles_update f3 s) = store_flags s"
  by (simp_all add: store_flags_def)

lemma push_psw:
  "after_handler 0xF5 s = s\<lparr>last_opcode := 0xF5, vcycles := T533, cpu_cycles := 11, sp := sp s - 2,
     memory := (memory s)(sp s - 2 := word_of_int (store_flags s), sp s - 1 := regs s 7)\<rparr>"
  by (simp add: after_handler_def handler_table h_push_def Let_def push_def memory_write_word_def memory_write_byte_def
       a_def reg_def byte_of_psw drop_push_8 drop_store)

lemma pop_psw:
  "after_handler 0xF1 s = retrieve_flags (uint (memory s (sp s)))
     (s\<lparr>last_opcode := 0xF1, vcycles := T433, cpu_cycles := 10, sp := sp s + 2,
        regs := (regs s)(7 := memory s (sp s + 1))\<rparr>)"
  by (simp add: after_handler_def handler_table h_pop_def Let_def pop_def memory_read_word_def memory_read_byte_def
       set_a_def set_reg_def word_low drop_push_8 drop_uint_byte)

lemma retrieve_flags_frame:
  "regs (retrieve_flags f s) = regs s" "sp (retrieve_flags f s) = sp s" "memory (retrieve_flags f s) = memory s"
  by (simp_all add: retrieve_flags_def)

text \<open>
  C8. From every state, PUSH PSW followed by POP PSW gives back the accumulator, the
  five flags and the stack pointer. The flag byte that PUSH PSW writes, at the new
  top of the stack, is \<^verbatim>\<open>store_flags()\<close>: its bit 1 is 1, its bits 3 and 5 are 0.
\<close>

theorem push_pop_psw:
  "regs (exec 0xF1 (exec 0xF5 s)) 7 = regs s 7 \<and>
   five_flags (exec 0xF1 (exec 0xF5 s)) = five_flags s \<and>
   sp (exec 0xF1 (exec 0xF5 s)) = sp s \<and>
   memory (exec 0xF5 s) (sp (exec 0xF5 s)) = word_of_int (store_flags s) \<and>
   bit (memory (exec 0xF5 s) (sp (exec 0xF5 s))) 1 \<and>
   \<not> bit (memory (exec 0xF5 s) (sp (exec 0xF5 s))) 3 \<and>
   \<not> bit (memory (exec 0xF5 s) (sp (exec 0xF5 s))) 5"
proof -
  let ?p = "exec 0xF5 s"
  have sp1: "sp ?p = sp s - 2" by (simp add: exec_after_handler push_psw)
  have lo: "memory ?p (sp s - 2) = word_of_int (store_flags s)"
    by (simp add: exec_after_handler push_psw)
  have hi: "memory ?p (sp s - 1) = regs s 7"
    by (simp add: exec_after_handler push_psw)
  have a7: "regs (exec 0xF1 ?p) 7 = regs s 7"
    by (simp add: exec_after_handler(1) pop_psw retrieve_flags_frame sp1 hi)
  have "five_flags (after_handler 0xF1 ?p) = five_flags s"
    unfolding pop_psw sp1 lo uint_store_flags by (rule retrieve_store_flags)
  then have fl: "five_flags (exec 0xF1 ?p) = five_flags s"
    by (simp add: exec_after_handler)
  have sp2: "sp (exec 0xF1 ?p) = sp s"
    by (simp add: exec_after_handler(3) pop_psw retrieve_flags_frame push_psw)
  have bits: "bit (word_of_int (store_flags s) :: byte) 1 \<and> \<not> bit (word_of_int (store_flags s) :: byte) 3
      \<and> \<not> bit (word_of_int (store_flags s) :: byte) 5"
    using store_flags_bits [of s] by (simp add: bit_simps)
  from a7 fl sp2 lo bits show ?thesis by (simp add: sp1)
qed

section \<open>STC and CMC\<close>

text \<open>
  C9, as stated: STC followed by CMC leaves CF as it was before the STC. It does not
  when CF was set: STC sets CF and CMC complements it, so CF ends clear.
\<close>

theorem stc_cmc_changes_cf:
  "cf (exec 0x3F (exec 0x37 ((I8080 Memory IO)\<lparr>cf := True\<rparr>)))
     \<noteq> cf ((I8080 Memory IO)\<lparr>cf := True\<rparr>)"
  by (simp add: exec_after_handler after_handler_def handler_table h_stc_def h_cmc_def)

text \<open>
  C9, amended: STC followed by CMC leaves CF clear, whatever it was before, so CF is
  as before exactly when it was clear; a single CMC toggles CF.
\<close>

theorem stc_cmc:
  "cf (exec 0x3F (exec 0x37 s)) = False \<and>
   (cf (exec 0x3F (exec 0x37 s)) = cf s) = (\<not> cf s) \<and>
   cf (exec 0x3F s) = (\<not> cf s)"
  by (simp add: exec_after_handler after_handler_def handler_table h_stc_def h_cmc_def)

section \<open>DAD\<close>

lemma dad_state:
  "dad r s = s\<lparr>cf := bit (hl s + rp r s) 16,
       regs := (regs s)(4 := word_of_int (drop_bit 8 (hl s + rp r s)), 5 := word_of_int (hl s + rp r s))\<rparr>"
  unfolding dad_def Let_def and_0x10000
  by (simp add: set_h_def set_l_def set_reg_def)

lemma hl_after_dad:
  "hl (s\<lparr>cf := k, regs := (regs s)(4 := word_of_int (drop_bit 8 x), 5 := word_of_int x)\<rparr>) = x mod 65536"
  by (simp add: hl_def rp_def join_bytes)

lemma dad_outcome_dad: "dad_outcome (rp r s) s (dad r s)"
  unfolding dad_outcome_def dad_state hl_after_dad
  by simp

lemma dad_outcome_cong:
  "hl t = hl s \<Longrightarrow> sf t = sf s \<Longrightarrow> zf t = zf s \<Longrightarrow> hf t = hf s \<Longrightarrow> pf t = pf s \<Longrightarrow> regs t = regs s
   \<Longrightarrow> sp t = sp s \<Longrightarrow> memory t = memory s \<Longrightarrow> dad_outcome v t u = dad_outcome v s u"
  by (simp add: dad_outcome_def)

lemma h_dad_outcome:
  "dad_outcome (rp (drop_bit 3 (op AND 0x30)) s) s (h_dad op (s\<lparr>last_opcode := x\<rparr>))"
proof -
  let ?t = "s\<lparr>last_opcode := x, vcycles := T433, cpu_cycles := 10\<rparr>"
  let ?r = "drop_bit 3 (op AND 0x30)"
  have "dad_outcome (rp ?r ?t) ?t (dad ?r ?t)" by (rule dad_outcome_dad)
  moreover have "rp ?r ?t = rp ?r s" by (rule rp_cong) simp_all
  moreover have "dad_outcome (rp ?r s) ?t (dad ?r ?t) = dad_outcome (rp ?r s) s (dad ?r ?t)"
    by (rule dad_outcome_cong) (simp_all add: hl_def rp_def)
  moreover have "h_dad op (s\<lparr>last_opcode := x\<rparr>) = dad ?r ?t"
    by (simp add: h_dad_def Let_def)
  ultimately show ?thesis by simp
qed

lemma dad_outcome_exec: "dad_outcome v s (exec op s) = dad_outcome v s (after_handler op s)"
  by (simp add: dad_outcome_def exec_after_handler hl_def rp_def)

text \<open>
  C10. \<^verbatim>\<open>dad\<close> adds the pair to HL modulo \<open>2^16\<close> and sets CF to bit 16 of the sum;
  SF, ZF, HF and PF, the registers other than H and L, SP and the memory stay as they
  were. The four opcodes add BC (0x09), DE (0x19), HL (0x29) and SP (0x39).
\<close>

theorem dad_frame:
  "dad_outcome (rp r s) s (dad r s) \<and>
   dad_outcome (bc s) s (exec 0x09 s) \<and>
   dad_outcome (de s) s (exec 0x19 s) \<and>
   dad_outcome (hl s) s (exec 0x29 s) \<and>
   dad_outcome (uint (sp s)) s (exec 0x39 s)"
proof (intro conjI)
  show "dad_outcome (rp r s) s (dad r s)" by (rule dad_outcome_dad)
  show "dad_outcome (bc s) s (exec 0x09 s)"
    using h_dad_outcome [of "0x09" s "0x09"]
    by (simp add: dad_outcome_exec after_handler_def handler_table bc_def)
  show "dad_outcome (de s) s (exec 0x19 s)"
    using h_dad_outcome [of "0x19" s "0x19"]
    by (simp add: dad_outcome_exec after_handler_def handler_table de_def)
  show "dad_outcome (hl s) s (exec 0x29 s)"
    using h_dad_outcome [of "0x29" s "0x29"]
    by (simp add: dad_outcome_exec after_handler_def handler_table hl_def)
  show "dad_outcome (uint (sp s)) s (exec 0x39 s)"
    using h_dad_outcome [of "0x39" s "0x39"]
    by (simp add: dad_outcome_exec after_handler_def handler_table rp_def)
qed

end
